theory Spec2Isabelle
  imports Complex_Main "HOL-Library.Char_ord" "HOL-Library.List_Lexorder"
    "HOL-Library.Product_Lexorder" "HOL-Library.Sublist"
begin

section \<open>Python values, dictionaries and exceptions\<close>

text \<open>
  The snapshots handled by \<^verbatim>\<open>ray.air.result.Result\<close> are \<^verbatim>\<open>Dict[str, Any]\<close>.
  The values that occur in a restored metrics table are numbers, booleans, strings, the
  missing-value marker of the table (a float NaN), \<^verbatim>\<open>None\<close> and nested dictionaries
  (the \<^verbatim>\<open>config\<close> entry of a live result).  Finite numbers are embedded in the reals,
  which keeps their order and the equality of an integer with the float of the same value;
  the two infinite floats, which \<^verbatim>\<open>json.loads\<close> accepts, are values of their own.
\<close>

datatype pyval =
    PyNone
  | PyBool bool
  | PyNum real
  | PyPosInf
  | PyNegInf
  | PyNaN
  | PyStr string
  | PyDict "(string \<times> pyval) list"

text \<open>A dictionary keeps insertion order: an association list, looked up from the front.\<close>

type_synonym pydict = "(string \<times> pyval) list"

text \<open>The messages of the exceptions raised by the module, with the holes of the f-strings.\<close>

datatype message =
    Trial_folder_doesnt_exist string
  | Neither_log_exists string string
  | No_checkpoint_exists
  | Unsupported_mode string
  | Invalid_metric_name string "string list"
  | Arg_is_an_empty_sequence

text \<open>
  \<^verbatim>\<open>External\<close> is an exception raised inside a library call or by the storage
  (an I/O error, a decoding error, a parse error); its text is opaque.
\<close>

datatype exn =
    RuntimeError message
  | ValueError message
  | KeyError string
  | IndexError
  | TypeError
  | AttributeError
  | External string

definition dict_contains :: "pydict \<Rightarrow> string \<Rightarrow> bool" where
  \<comment> \<open>\<^verbatim>\<open>key in d\<close>\<close>
  "dict_contains d k = (k \<in> set (map fst d))"

definition dict_getitem :: "pydict \<Rightarrow> string \<Rightarrow> exn + pyval" where
  \<comment> \<open>\<^verbatim>\<open>d[key]\<close>\<close>
  "dict_getitem d k = (case map_of d k of None \<Rightarrow> Inl (KeyError k) | Some v \<Rightarrow> Inr v)"

definition dict_get :: "pydict \<Rightarrow> string \<Rightarrow> pyval \<Rightarrow> pyval" where
  \<comment> \<open>\<^verbatim>\<open>d.get(key, default)\<close>\<close>
  "dict_get d k dflt = (case map_of d k of None \<Rightarrow> dflt | Some v \<Rightarrow> v)"

definition dict_keys :: "pydict \<Rightarrow> string list" where
  \<comment> \<open>\<^verbatim>\<open>d.keys()\<close>, in insertion order\<close>
  "dict_keys d = map fst d"

subsection \<open>Comparison of values\<close>

text \<open>
  Python's \<^verbatim>\<open>a > b\<close> on the values above: numbers and booleans compare as numbers
  (\<^verbatim>\<open>True\<close> is 1), minus infinity is below and plus infinity above every finite
  number, every comparison with NaN is false, strings compare lexicographically by code
  point, and any other pair raises \<^verbatim>\<open>TypeError\<close>.

  A number is placed on the extended real line by a pair, ordered lexicographically: the
  first component is -1, 0 or 1 for minus infinity, a finite number, plus infinity.
\<close>

fun number_key :: "pyval \<Rightarrow> (int \<times> real) option" where
  "number_key (PyBool b) = Some (0, if b then 1 else 0)"
| "number_key (PyNum x) = Some (0, x)"
| "number_key PyPosInf = Some (1, 0)"
| "number_key PyNegInf = Some (-1, 0)"
| "number_key v = None"

fun is_float_like :: "pyval \<Rightarrow> bool" where
  "is_float_like (PyBool b) = True"
| "is_float_like (PyNum x) = True"
| "is_float_like PyPosInf = True"
| "is_float_like PyNegInf = True"
| "is_float_like PyNaN = True"
| "is_float_like v = False"

fun py_gt :: "pyval \<Rightarrow> pyval \<Rightarrow> exn + bool" where
  "py_gt (PyStr s) (PyStr t) = Inr (t < s)"
| "py_gt a b =
     (if is_float_like a \<and> is_float_like b
      then (case (number_key a, number_key b) of
              (Some x, Some y) \<Rightarrow> Inr (y < x)
            | _ \<Rightarrow> Inr False)
      else Inl TypeError)"

definition py_lt :: "pyval \<Rightarrow> pyval \<Rightarrow> exn + bool" where
  \<comment> \<open>\<^verbatim>\<open>a < b\<close> is the reflection of \<^verbatim>\<open>b > a\<close> for these types\<close>
  "py_lt a b = py_gt b a"

subsection \<open>The builtins \<^verbatim>\<open>max\<close> and \<^verbatim>\<open>min\<close> with a key function\<close>

text \<open>
  CPython keeps the first item and its key, and replaces them by a later item only when
  the later key compares strictly better (\<^verbatim>\<open>>\<close> for \<^verbatim>\<open>max\<close>, \<^verbatim>\<open><\<close> for
  \<^verbatim>\<open>min\<close>).  An exception of the key function or of the comparison ends the call.
\<close>

fun py_extremum ::
  "('k \<Rightarrow> 'k \<Rightarrow> exn + bool) \<Rightarrow> ('a \<Rightarrow> exn + 'k) \<Rightarrow> 'a \<times> 'k \<Rightarrow> 'a list \<Rightarrow> exn + 'a" where
  "py_extremum better key (maxitem, maxval) [] = Inr maxitem"
| "py_extremum better key (maxitem, maxval) (item # it) =
     (case key item of
        Inl e \<Rightarrow> Inl e
      | Inr val \<Rightarrow>
          (case better val maxval of
             Inl e \<Rightarrow> Inl e
           | Inr c \<Rightarrow> py_extremum better key (if c then (item, val) else (maxitem, maxval)) it))"

definition py_min_max ::
  "('k \<Rightarrow> 'k \<Rightarrow> exn + bool) \<Rightarrow> 'a list \<Rightarrow> ('a \<Rightarrow> exn + 'k) \<Rightarrow> exn + 'a" where
  "py_min_max better it key =
     (case it of
        [] \<Rightarrow> Inl (ValueError Arg_is_an_empty_sequence)
      | item # rest \<Rightarrow>
          (case key item of
             Inl e \<Rightarrow> Inl e
           | Inr val \<Rightarrow> py_extremum better key (item, val) rest))"

definition py_max :: "'a list \<Rightarrow> ('a \<Rightarrow> exn + pyval) \<Rightarrow> exn + 'a" where
  "py_max = py_min_max py_gt"

definition py_min :: "'a list \<Rightarrow> ('a \<Rightarrow> exn + pyval) \<Rightarrow> exn + 'a" where
  "py_min = py_min_max py_lt"

section \<open>Storage and checkpoints\<close>

datatype file_type = NotFound | Unknown | File | Directory

text \<open>
  The \<^verbatim>\<open>pyarrow.fs.FileSystem\<close> handle, by the operations the module calls on it:
  the existence test, \<^verbatim>\<open>open_input_stream(p).readall()\<close>, the non-recursive
  \<^verbatim>\<open>get_file_info(FileSelector(p))\<close> with the base name and type of each entry, and
  whether the handle is a \<^verbatim>\<open>LocalFileSystem\<close>.  A read or a listing may raise.
\<close>

record filesystem =
  fs_exists :: "string \<Rightarrow> bool"
  open_input_stream :: "string \<Rightarrow> string + string"
  get_file_info :: "string \<Rightarrow> string + (string \<times> file_type) list"
  is_local :: bool

datatype checkpoint = Checkpoint string filesystem

section \<open>The tabular metrics history\<close>

text \<open>
  A \<^verbatim>\<open>pandas.DataFrame\<close> by the operations the module uses: column labels and the
  rows in file order, each row holding one cell per column (NaN where the source record
  had no such key).
\<close>

record dataframe =
  columns :: "string list"
  rows :: "pyval list list"

subsection \<open>What the module imports\<close>

text \<open>
  The constants of \<^verbatim>\<open>ray.air.constants\<close> and \<^verbatim>\<open>ray.train.constants\<close> and the
  library calls (\<^verbatim>\<open>get_fs_and_path\<close>, \<^verbatim>\<open>bytes.decode\<close>, \<^verbatim>\<open>json.loads\<close>,
  \<^verbatim>\<open>pd.json_normalize\<close>, \<^verbatim>\<open>pd.read_csv\<close>, \<^verbatim>\<open>cloudpickle.load\<close>) are not
  part of the module: they are parameters.  A library call returns its value or the text
  of the exception it raised.  \<^typ>\<open>'j\<close> is the type of a parsed JSON record.

  \<^verbatim>\<open>series_upcast\<close> is what the table library does to the cells of one row when
  \<^verbatim>\<open>df.iloc[-1]\<close> makes a single series of them: the cells are brought to one common
  type, so an integer beside floats becomes the nearest float.  Floats are not modelled
  bit by bit, hence a parameter.
\<close>

record 'j env =
  EXPR_RESULT_FILE :: string
  EXPR_PROGRESS_FILE :: string
  EXPR_ERROR_PICKLE_FILE :: string
  CHECKPOINT_DIR_NAME :: string
  get_fs_and_path :: "string \<Rightarrow> filesystem option \<Rightarrow> string + (filesystem \<times> string)"
  decode_utf8 :: "string \<Rightarrow> string + string"
  json_loads :: "string \<Rightarrow> string + 'j"
  json_normalize :: "'j list \<Rightarrow> string + dataframe"
  read_csv :: "string \<Rightarrow> string + dataframe"
  cloudpickle_load :: "string \<Rightarrow> string + string"
  series_upcast :: "pyval list \<Rightarrow> pyval list"

subsection \<open>Operations on the table\<close>

definition df_empty :: "dataframe \<Rightarrow> bool" where
  \<comment> \<open>\<^verbatim>\<open>df.empty\<close>: an axis of length 0\<close>
  "df_empty df = (columns df = [] \<or> rows df = [])"

definition row_cell :: "dataframe \<Rightarrow> pyval list \<Rightarrow> string \<Rightarrow> pyval" where
  \<comment> \<open>the cell of a row under a column label, as the column holds it\<close>
  "row_cell df r c = dict_get (zip (columns df) r) c PyNaN"

definition row_to_dict :: "'j env \<Rightarrow> dataframe \<Rightarrow> pyval list \<Rightarrow> pydict" where
  \<comment> \<open>\<^verbatim>\<open>df.iloc[i].to_dict()\<close>: every column label with the row's cell, the cells
      brought to the common type of the row\<close>
  "row_to_dict env df r = zip (columns df) (series_upcast env r)"

definition iloc_last :: "dataframe \<Rightarrow> exn + pyval list" where
  \<comment> \<open>\<^verbatim>\<open>df.iloc[-1]\<close>\<close>
  "iloc_last df = (if rows df = [] then Inl IndexError else Inr (last (rows df)))"

definition df_getitem_column :: "dataframe \<Rightarrow> string \<Rightarrow> exn + pyval list" where
  \<comment> \<open>\<^verbatim>\<open>df[label]\<close>: the column as a series, \<^verbatim>\<open>KeyError\<close> for an unknown label\<close>
  "df_getitem_column df c =
     (if c \<in> set (columns df)
      then Inr (map (\<lambda>r. row_cell df r c) (rows df))
      else Inl (KeyError c))"

definition series_eq :: "pyval list \<Rightarrow> string \<Rightarrow> bool list" where
  \<comment> \<open>\<^verbatim>\<open>series == text\<close>, elementwise\<close>
  "series_eq s x = map (\<lambda>v. v = PyStr x) s"

definition df_getitem_mask :: "dataframe \<Rightarrow> bool list \<Rightarrow> dataframe" where
  \<comment> \<open>\<^verbatim>\<open>df[mask]\<close>: the rows whose mask entry is true, same columns\<close>
  "df_getitem_mask df selected = df\<lparr>rows := map fst (filter snd (zip (rows df) selected))\<rparr>"

section \<open>The result object\<close>

record Result =
  metrics :: "pydict option"
  checkpoint :: "checkpoint option"
  error :: "string option"
  metrics_dataframe :: "dataframe option"
  best_checkpoints :: "(checkpoint \<times> pydict) list option"
  local_path :: "string option"
  remote_path :: "string option"
  storage_filesystem :: "filesystem option"

definition config :: "Result \<Rightarrow> pyval" where
  "config self =
     (case metrics self of
        None \<Rightarrow> PyNone
      | Some m \<Rightarrow> if m = [] then PyNone else dict_get m ''config'' PyNone)"

definition get_best_checkpoint :: "Result \<Rightarrow> string \<Rightarrow> string \<Rightarrow> exn + checkpoint" where
  "get_best_checkpoint self metric mode =
     (case best_checkpoints self of
        None \<Rightarrow> Inl (RuntimeError No_checkpoint_exists)
      | Some [] \<Rightarrow> Inl (RuntimeError No_checkpoint_exists)
      | Some bcs \<Rightarrow>
          if mode \<notin> set [''max'', ''min''] then Inl (ValueError (Unsupported_mode mode))
          else
            let op = (if mode = ''max'' then py_max else py_min);
                valid_checkpoints = filter (\<lambda>ckpt_info. dict_contains (snd ckpt_info) metric) bcs
            in if valid_checkpoints = []
               then (case metrics self of
                       None \<Rightarrow> Inl AttributeError
                     | Some m \<Rightarrow> Inl (RuntimeError (Invalid_metric_name metric (dict_keys m))))
               else (case op valid_checkpoints (\<lambda>x. dict_getitem (snd x) metric) of
                       Inl e \<Rightarrow> Inl e
                     | Inr best \<Rightarrow> Inr (fst best)))"

section \<open>Restoring a result from a trial directory\<close>

subsection \<open>Strings and paths\<close>

definition startswith :: "string \<Rightarrow> string \<Rightarrow> bool" where
  "startswith s p = (take (length p) s = p)"

definition endswith :: "string \<Rightarrow> string \<Rightarrow> bool" where
  "endswith s p = (length p \<le> length s \<and> drop (length s - length p) s = p)"

definition os_path_join :: "string \<Rightarrow> string \<Rightarrow> string" where
  \<comment> \<open>\<^verbatim>\<open>posixpath.join\<close> of two components\<close>
  "os_path_join a b =
     (if startswith b ''/'' then b
      else if a = [] \<or> endswith a ''/'' then a @ b
      else a @ ''/'' @ b)"

fun split_newline :: "string \<Rightarrow> string list" where
  \<comment> \<open>\<^verbatim>\<open>text.split("\n")\<close>\<close>
  "split_newline [] = [[]]"
| "split_newline (c # cs) =
     (if c = CHR 0x0A then [] # split_newline cs
      else (case split_newline cs of
              [] \<Rightarrow> [[c]]
            | l # ls \<Rightarrow> (c # l) # ls))"

subsection \<open>Computations that touch the storage\<close>

text \<open>
  A computation returns a value or raises, and records in order the storage operations it
  performed and the warnings it logged.  The module only reads, so the storage itself is
  not part of the state.
\<close>

datatype event =
    Exists string
  | OpenInputStream string
  | GetFileInfo string
  | LogWarning string

type_synonym 'a io = "(exn + 'a) \<times> event list"

definition io_return :: "'a \<Rightarrow> 'a io" where
  "io_return x = (Inr x, [])"

definition io_raise :: "exn \<Rightarrow> 'a io" where
  "io_raise e = (Inl e, [])"

definition io_bind :: "'a io \<Rightarrow> ('a \<Rightarrow> 'b io) \<Rightarrow> 'b io" where
  "io_bind m f =
     (case m of
        (Inl e, t) \<Rightarrow> (Inl e, t)
      | (Inr x, t) \<Rightarrow> (case f x of (r, t') \<Rightarrow> (r, t @ t')))"

definition io_call :: "string + 'a \<Rightarrow> 'a io" where
  \<comment> \<open>a library call: its exception is propagated\<close>
  "io_call r = (case r of Inl e \<Rightarrow> (Inl (External e), []) | Inr x \<Rightarrow> (Inr x, []))"

definition io_try :: "exn + 'a \<Rightarrow> 'a io" where
  "io_try r = (r, [])"

definition io_log_warning :: "string \<Rightarrow> unit io" where
  "io_log_warning text = (Inr (), [LogWarning text])"

definition exists_at_fs_path :: "filesystem \<Rightarrow> string \<Rightarrow> bool io" where
  \<comment> \<open>Modelled from the spec: \<^verbatim>\<open>_exists_at_fs_path\<close> of
      \<^verbatim>\<open>ray.train._internal.storage\<close> is the storage capability
      \<^verbatim>\<open>exists(path) -> bool\<close>.\<close>
  "exists_at_fs_path fs p = (Inr (fs_exists fs p), [Exists p])"

definition read_all :: "filesystem \<Rightarrow> string \<Rightarrow> string io" where
  \<comment> \<open>\<^verbatim>\<open>with fs.open_input_stream(p) as f: f.readall()\<close>\<close>
  "read_all fs p =
     (case open_input_stream fs p of
        Inl e \<Rightarrow> (Inl (External e), [OpenInputStream p])
      | Inr bytes \<Rightarrow> (Inr bytes, [OpenInputStream p]))"

definition list_directory :: "filesystem \<Rightarrow> string \<Rightarrow> (string \<times> file_type) list io" where
  \<comment> \<open>\<^verbatim>\<open>fs.get_file_info(pyarrow.fs.FileSelector(p))\<close>\<close>
  "list_directory fs p =
     (case get_file_info fs p of
        Inl e \<Rightarrow> (Inl (External e), [GetFileInfo p])
      | Inr items \<Rightarrow> (Inr items, [GetFileInfo p]))"

fun call_each :: "('a \<Rightarrow> string + 'b) \<Rightarrow> 'a list \<Rightarrow> string + 'b list" where
  \<comment> \<open>a list comprehension over a call that may raise\<close>
  "call_each f [] = Inr []"
| "call_each f (x # xs) =
     (case f x of
        Inl e \<Rightarrow> Inl e
      | Inr y \<Rightarrow> (case call_each f xs of Inl e \<Rightarrow> Inl e | Inr ys \<Rightarrow> Inr (y # ys)))"

subsection \<open>\<^verbatim>\<open>Result._validate_trial_dir\<close> and \<^verbatim>\<open>Result.from_path\<close>\<close>

definition validate_trial_dir :: "string \<Rightarrow> filesystem \<Rightarrow> unit io" where
  "validate_trial_dir trial_dir storage_fs =
     io_bind (exists_at_fs_path storage_fs trial_dir) (\<lambda>found.
       if \<not> found then io_raise (RuntimeError (Trial_folder_doesnt_exist trial_dir))
       else io_return ())"

definition restore_metrics_df :: "'j env \<Rightarrow> filesystem \<Rightarrow> string \<Rightarrow> dataframe io" where
  \<comment> \<open>lines 161 to 177: the metrics table from \<^verbatim>\<open>result.json\<close>, else from
      \<^verbatim>\<open>progress.csv\<close>\<close>
  "restore_metrics_df env fs fs_path =
     (let result_json_file = os_path_join fs_path (EXPR_RESULT_FILE env);
          progress_csv_file = os_path_join fs_path (EXPR_PROGRESS_FILE env)
      in io_bind (exists_at_fs_path fs result_json_file) (\<lambda>has_json.
           if has_json then
             io_bind (read_all fs result_json_file) (\<lambda>bytes.
             io_bind (io_call (decode_utf8 env bytes)) (\<lambda>text.
               let lines = split_newline text in
               io_bind (io_call (call_each (json_loads env) (filter (\<lambda>line. line \<noteq> []) lines)))
                 (\<lambda>json_list. io_call (json_normalize env json_list))))
           else
             io_bind (exists_at_fs_path fs progress_csv_file) (\<lambda>has_csv.
               if has_csv then
                 io_bind (read_all fs progress_csv_file) (\<lambda>bytes.
                 io_bind (io_call (decode_utf8 env bytes)) (\<lambda>text.
                   io_call (read_csv env text)))
               else
                 io_raise (RuntimeError
                   (Neither_log_exists (EXPR_RESULT_FILE env) (EXPR_PROGRESS_FILE env))))))"

definition latest_metrics_of :: "'j env \<Rightarrow> dataframe \<Rightarrow> pydict io" where
  \<comment> \<open>line 179\<close>
  "latest_metrics_of env metrics_df =
     (if \<not> df_empty metrics_df
      then io_bind (io_try (iloc_last metrics_df)) (\<lambda>r. io_return (row_to_dict env metrics_df r))
      else io_return [])"

definition checkpoint_dirs_of :: "(string \<times> file_type) list \<Rightarrow> string list" where
  \<comment> \<open>lines 182 to 189\<close>
  "checkpoint_dirs_of items =
     sort (map fst (filter (\<lambda>item. snd item = Directory \<and> startswith (fst item) ''checkpoint_'')
                      items))"

fun checkpoint_metrics :: "'j env \<Rightarrow> dataframe \<Rightarrow> string list \<Rightarrow> pydict list io" where
  \<comment> \<open>lines 197 to 211: the loop over the checkpoint directories\<close>
  "checkpoint_metrics env metrics_df [] = io_return []"
| "checkpoint_metrics env metrics_df (checkpoint_dir # dirs) =
     io_bind (io_try (df_getitem_column metrics_df (CHECKPOINT_DIR_NAME env))) (\<lambda>series.
       let metrics_corresponding_to_checkpoint =
             df_getitem_mask metrics_df (series_eq series checkpoint_dir)
       in
       io_bind (if df_empty metrics_corresponding_to_checkpoint
                then io_log_warning (''Could not find metrics corresponding to '' @ checkpoint_dir
                       @ ''. These will default to an empty dict.'')
                else io_return ()) (\<lambda>_.
       io_bind (if df_empty metrics_corresponding_to_checkpoint then io_return []
                else io_bind (io_try (iloc_last metrics_corresponding_to_checkpoint))
                       (\<lambda>r. io_return (row_to_dict env metrics_corresponding_to_checkpoint r))) (\<lambda>m.
       io_bind (checkpoint_metrics env metrics_df dirs) (\<lambda>ms.
         io_return (m # ms)))))"

definition restore_checkpoints ::
  "'j env \<Rightarrow> filesystem \<Rightarrow> string \<Rightarrow> dataframe \<Rightarrow> string list
     \<Rightarrow> ((checkpoint \<times> pydict) list option \<times> checkpoint option) io" where
  \<comment> \<open>lines 191 to 218\<close>
  "restore_checkpoints env fs fs_path metrics_df checkpoint_dirs =
     (if checkpoint_dirs \<noteq> [] then
        let checkpoints = map (\<lambda>checkpoint_dir. Checkpoint (os_path_join fs_path checkpoint_dir) fs)
                            checkpoint_dirs
        in io_bind (checkpoint_metrics env metrics_df checkpoint_dirs) (\<lambda>ms.
             let latest_checkpoint = last checkpoints;
                 best = zip checkpoints ms
             in io_return (Some best, Some latest_checkpoint))
      else io_return (None, None))"

definition restore_error :: "'j env \<Rightarrow> filesystem \<Rightarrow> string \<Rightarrow> string option io" where
  \<comment> \<open>lines 220 to 225\<close>
  "restore_error env fs fs_path =
     (let error_file_path = os_path_join fs_path (EXPR_ERROR_PICKLE_FILE env)
      in io_bind (exists_at_fs_path fs error_file_path) (\<lambda>found.
           if found then
             io_bind (read_all fs error_file_path) (\<lambda>bytes.
             io_bind (io_call (cloudpickle_load env bytes)) (\<lambda>err.
               io_return (Some err)))
           else io_return None))"

definition from_path :: "'j env \<Rightarrow> string \<Rightarrow> filesystem option \<Rightarrow> Result io" where
  "from_path env path storage_fs =
     io_bind (io_call (get_fs_and_path env path storage_fs)) (\<lambda>(fs, fs_path).
     io_bind (validate_trial_dir fs_path fs) (\<lambda>_.
     io_bind (restore_metrics_df env fs fs_path) (\<lambda>metrics_df.
     io_bind (latest_metrics_of env metrics_df) (\<lambda>latest_metrics.
     io_bind (list_directory fs fs_path) (\<lambda>items.
     io_bind (restore_checkpoints env fs fs_path metrics_df (checkpoint_dirs_of items))
       (\<lambda>(best, latest_checkpoint).
     io_bind (restore_error env fs fs_path) (\<lambda>err.
       io_return
         \<lparr> metrics = Some latest_metrics,
           checkpoint = latest_checkpoint,
           error = err,
           metrics_dataframe = Some metrics_df,
           best_checkpoints = best,
           local_path = (if is_local fs then Some path else None),
           remote_path = Some fs_path,
           storage_filesystem = Some fs \<rparr>)))))))"

section \<open>Notions used in the statements\<close>

definition matching_rows :: "dataframe \<Rightarrow> string \<Rightarrow> string \<Rightarrow> pyval list list" where
  \<comment> \<open>the rows of the history, in order, whose cell under the correlation key is the
      given directory name\<close>
  "matching_rows df key name =
     filter (\<lambda>r. row_cell df r key = PyStr name) (rows df)"

definition correlated_snapshot :: "'j env \<Rightarrow> dataframe \<Rightarrow> string \<Rightarrow> pydict" where
  \<comment> \<open>what one pass of the loop of lines 197 to 211 appends when the column exists\<close>
  "correlated_snapshot env df name =
     (if matching_rows df (CHECKPOINT_DIR_NAME env) name = [] then []
      else row_to_dict env df (last (matching_rows df (CHECKPOINT_DIR_NAME env) name)))"

definition value_less :: "pyval \<Rightarrow> pyval \<Rightarrow> bool" where
  \<comment> \<open>the order of the values that have one: two numbers by their place on the extended
      real line, two texts lexicographically; no other pair is ordered\<close>
  "value_less a b =
     (case (number_key a, number_key b) of
        (Some x, Some y) \<Rightarrow> x < y
      | _ \<Rightarrow> (case (a, b) of (PyStr s, PyStr t) \<Rightarrow> s < t | _ \<Rightarrow> False))"

definition is_digit :: "char \<Rightarrow> bool" where
  "is_digit c = (CHR ''0'' \<le> c \<and> c \<le> CHR ''9'')"

definition decimal :: "string \<Rightarrow> nat" where
  "decimal ds = foldl (\<lambda>n c. 10 * n + (of_char c - 48)) 0 ds"

definition checkpoint_index :: "string \<Rightarrow> nat" where
  \<comment> \<open>the index written after \<^verbatim>\<open>checkpoint_\<close> in a directory name; the module itself
      never parses it\<close>
  "checkpoint_index name = decimal (drop (length ''checkpoint_'') name)"

definition log_opened :: "string \<Rightarrow> string \<Rightarrow> event \<Rightarrow> bool" where
  \<comment> \<open>the event is the opening of one of the two metrics logs\<close>
  "log_opened result_json_file progress_csv_file ev =
     (ev = OpenInputStream result_json_file \<or> ev = OpenInputStream progress_csv_file)"

section \<open>A worked trial\<close>

text \<open>
  The trial of the module's test: reports that carry \<^verbatim>\<open>metric_a\<close> and
  \<^verbatim>\<open>metric_b\<close>, three kept checkpoints, and a stored error.
\<close>

definition example_fs :: filesystem where
  "example_fs =
     \<lparr> fs_exists = (\<lambda>p. p \<in> set [''/trial'', ''/trial/result.json'', ''/trial/error.pkl'',
                                    ''/trial/checkpoint_000002'', ''/trial/checkpoint_000003'',
                                    ''/trial/checkpoint_000004'']),
       open_input_stream = (\<lambda>p. if p = ''/trial/result.json'' then Inr (''r'' @ [CHR 0x0A] @ ''s'')
                                 else if p = ''/trial/error.pkl'' then Inr ''RuntimeError''
                                 else Inl ''FileNotFoundError''),
       get_file_info = (\<lambda>p. if p = ''/trial''
                             then Inr [(''result.json'', File), (''checkpoint_000003'', Directory),
                                       (''checkpoint_000002'', Directory), (''error.pkl'', File),
                                       (''checkpoint_000004'', Directory)]
                             else Inl ''FileNotFoundError''),
       is_local = True \<rparr>"

definition example_df :: dataframe where
  "example_df =
     \<lparr> columns = [''metric_a'', ''metric_b'', ''checkpoint_dir_name''],
       rows = [[PyNum (-100), PyNum (-100), PyNaN],
               [PyNum 2, PyNum (-2), PyStr ''checkpoint_000002''],
               [PyNum 30, PyNum (-30), PyStr ''checkpoint_000003''],
               [PyNum 3, PyNum (-3), PyStr ''checkpoint_000003''],
               [PyNum 4, PyNum (-4), PyStr ''checkpoint_000004'']] \<rparr>"

definition example_env :: "string env" where
  "example_env =
     \<lparr> EXPR_RESULT_FILE = ''result.json'',
       EXPR_PROGRESS_FILE = ''progress.csv'',
       EXPR_ERROR_PICKLE_FILE = ''error.pkl'',
       CHECKPOINT_DIR_NAME = ''checkpoint_dir_name'',
       get_fs_and_path = (\<lambda>p fs. case fs of None \<Rightarrow> Inl ''ArrowInvalid'' | Some f \<Rightarrow> Inr (f, p)),
       decode_utf8 = Inr,
       json_loads = Inr,
       json_normalize = (\<lambda>records. if records = [''r'', ''s''] then Inr example_df
                                    else Inl ''ValueError''),
       read_csv = (\<lambda>text. if text = ''csv'' then Inr example_df else Inl ''ParserError''),
       cloudpickle_load = Inr,
       series_upcast = (\<lambda>cells. cells) \<rparr>"

definition bare_fs :: filesystem where
  \<comment> \<open>the same trial with no checkpoint directory and no stored error\<close>
  "bare_fs =
     \<lparr> fs_exists = (\<lambda>p. p \<in> set [''/trial'', ''/trial/result.json'']),
       open_input_stream = (\<lambda>p. if p = ''/trial/result.json'' then Inr (''r'' @ [CHR 0x0A] @ ''s'')
                                 else Inl ''FileNotFoundError''),
       get_file_info = (\<lambda>p. if p = ''/trial'' then Inr [(''result.json'', File)]
                             else Inl ''FileNotFoundError''),
       is_local = True \<rparr>"

definition csv_fs :: filesystem where
  \<comment> \<open>a trial that only has the fallback log\<close>
  "csv_fs =
     \<lparr> fs_exists = (\<lambda>p. p \<in> set [''/trial'', ''/trial/progress.csv'']),
       open_input_stream = (\<lambda>p. if p = ''/trial/progress.csv'' then Inr ''csv''
                                 else Inl ''FileNotFoundError''),
       get_file_info = (\<lambda>p. if p = ''/trial'' then Inr [(''progress.csv'', File)]
                             else Inl ''FileNotFoundError''),
       is_local = True \<rparr>"

definition nolog_fs :: filesystem where
  \<comment> \<open>a trial directory with neither metrics log\<close>
  "nolog_fs =
     \<lparr> fs_exists = (\<lambda>p. p = ''/trial''),
       open_input_stream = (\<lambda>p. Inl ''FileNotFoundError''),
       get_file_info = (\<lambda>p. if p = ''/trial'' then Inr [] else Inl ''FileNotFoundError''),
       is_local = True \<rparr>"

definition unreadable_fs :: filesystem where
  \<comment> \<open>the primary log exists and cannot be read\<close>
  "unreadable_fs =
     \<lparr> fs_exists = (\<lambda>p. p \<in> set [''/trial'', ''/trial/result.json'']),
       open_input_stream = (\<lambda>p. Inl ''OSError''),
       get_file_info = (\<lambda>p. if p = ''/trial'' then Inr [(''result.json'', File)]
                             else Inl ''FileNotFoundError''),
       is_local = False \<rparr>"

definition keyless_env :: "string env" where
  \<comment> \<open>the log's records carry \<^verbatim>\<open>metric_a\<close> only\<close>
  "keyless_env =
     example_env\<lparr> json_normalize :=
       (\<lambda>records. Inr \<lparr> columns = [''metric_a''], rows = [[PyNum 1], [PyNum 2]] \<rparr>) \<rparr>"

definition example_records :: "(checkpoint \<times> pydict) list" where
  "example_records =
     [(Checkpoint ''/trial/checkpoint_000002'' example_fs,
         [(''metric_a'', PyNum 2), (''metric_b'', PyNum (-2))]),
      (Checkpoint ''/trial/checkpoint_000003'' example_fs,
         [(''metric_a'', PyNum 4), (''metric_b'', PyNum (-3))]),
      (Checkpoint ''/trial/checkpoint_000004'' example_fs,
         [(''metric_a'', PyNum 4), (''metric_b'', PyNum (-4))])]"

definition example_result :: Result where
  "example_result =
     \<lparr> metrics = Some [(''metric_a'', PyNum 4), (''metric_b'', PyNum (-4))],
       checkpoint = Some (Checkpoint ''/trial/checkpoint_000004'' example_fs),
       error = Some ''RuntimeError'',
       metrics_dataframe = None,
       best_checkpoints = Some example_records,
       local_path = Some ''/trial'',
       remote_path = Some ''/trial'',
       storage_filesystem = Some example_fs \<rparr>"

definition example_value :: "string \<Rightarrow> checkpoint \<times> pydict \<Rightarrow> pyval" where
  "example_value metric ci = dict_get (snd ci) metric PyNone"

definition text_result :: Result where
  \<comment> \<open>three records ranked by a text\<close>
  "text_result =
     \<lparr> metrics = Some [(''grade'', PyStr ''b'')],
       checkpoint = Some (Checkpoint ''/trial/checkpoint_000002'' example_fs),
       error = None,
       metrics_dataframe = None,
       best_checkpoints =
         Some [(Checkpoint ''/trial/checkpoint_000000'' example_fs, [(''grade'', PyStr ''b'')]),
               (Checkpoint ''/trial/checkpoint_000001'' example_fs, [(''grade'', PyStr ''a'')]),
               (Checkpoint ''/trial/checkpoint_000002'' example_fs, [(''grade'', PyStr ''b'')])],
       local_path = Some ''/trial'',
       remote_path = Some ''/trial'',
       storage_filesystem = Some example_fs \<rparr>"

definition mixed_result :: Result where
  "mixed_result =
     \<lparr> metrics = Some [(''status'', PyNum 1)],
       checkpoint = Some (Checkpoint ''/trial/checkpoint_000001'' example_fs),
       error = None,
       metrics_dataframe = None,
       best_checkpoints =
         Some [(Checkpoint ''/trial/checkpoint_000000'' example_fs, [(''status'', PyStr ''ok'')]),
               (Checkpoint ''/trial/checkpoint_000001'' example_fs, [(''status'', PyNum 1)])],
       local_path = Some ''/trial'',
       remote_path = Some ''/trial'',
       storage_filesystem = Some example_fs \<rparr>"

definition nan_result :: Result where
  \<comment> \<open>as restored from a log whose first checkpointed report has no \<^verbatim>\<open>score\<close>\<close>
  "nan_result =
     \<lparr> metrics = Some [(''score'', PyNum 2)],
       checkpoint = Some (Checkpoint ''/trial/checkpoint_000002'' example_fs),
       error = None,
       metrics_dataframe = None,
       best_checkpoints =
         Some [(Checkpoint ''/trial/checkpoint_000000'' example_fs, [(''score'', PyNaN)]),
               (Checkpoint ''/trial/checkpoint_000001'' example_fs, [(''score'', PyNum 1)]),
               (Checkpoint ''/trial/checkpoint_000002'' example_fs, [(''score'', PyNum 2)])],
       local_path = Some ''/trial'',
       remote_path = Some ''/trial'',
       storage_filesystem = Some example_fs \<rparr>"

section \<open>Selecting the best checkpoint\<close>

lemma py_gt_numbers:
  "number_key a = Some x \<Longrightarrow> number_key b = Some y \<Longrightarrow> py_gt a b = Inr (y < x)"
  by (cases a; cases b) auto

lemma py_gt_infinite:
  "py_gt PyPosInf (PyNum x) = Inr True" "py_gt (PyNum x) PyPosInf = Inr False"
  "py_gt (PyNum x) PyNegInf = Inr True" "py_gt PyNegInf (PyNum x) = Inr False"
  "py_gt PyPosInf PyNegInf = Inr True" "py_gt PyPosInf PyPosInf = Inr False"
  by simp_all

lemma value_less_numbers:
  "number_key a = Some x \<Longrightarrow> number_key b = Some y \<Longrightarrow> value_less a b = (x < y)"
  by (simp add: value_less_def)

lemma value_less_texts: "value_less (PyStr s) (PyStr t) = (s < t)"
  by (simp add: value_less_def)

text \<open>
  The scan of \<^verbatim>\<open>max\<close>/\<^verbatim>\<open>min\<close>, for a comparison that is the strict part \<open>lt\<close> of a
  linear order on the ranks of the keys: if the item held is strictly better than every
  item before it and no item between it and the rest is better, the item returned splits
  the whole list the same way.
\<close>

lemma py_extremum_decomp:
  assumes tr1: "\<And>a b c. lt a b \<Longrightarrow> lt b c \<Longrightarrow> lt a c"
    and tr2: "\<And>a b c. \<not> lt b a \<Longrightarrow> lt b c \<Longrightarrow> lt a c"
    and keys: "\<And>x. x \<in> set (pre @ m # mid @ xs) \<Longrightarrow> key x = Inr (kv x)"
    and cmp: "\<And>x y. x \<in> set (pre @ m # mid @ xs) \<Longrightarrow> y \<in> set (pre @ m # mid @ xs)
                \<Longrightarrow> better (kv x) (kv y) = Inr (lt (rank y) (rank x))"
    and pre: "\<forall>x\<in>set pre. lt (rank x) (rank m)"
    and mid: "\<forall>x\<in>set mid. \<not> lt (rank m) (rank x)"
  shows "\<exists>pre' b post'. pre @ m # mid @ xs = pre' @ b # post'
           \<and> py_extremum better key (m, kv m) xs = Inr b
           \<and> (\<forall>x\<in>set pre'. lt (rank x) (rank b)) \<and> (\<forall>x\<in>set post'. \<not> lt (rank b) (rank x))"
  using keys cmp pre mid
proof (induction xs arbitrary: pre m mid)
  case Nil
  then show ?case by auto
next
  case (Cons x xs)
  have kx: "key x = Inr (kv x)" using Cons.prems(1) by simp
  have bx: "better (kv x) (kv m) = Inr (lt (rank m) (rank x))" using Cons.prems(2) by simp
  show ?case
  proof (cases "lt (rank m) (rank x)")
    case True
    have "\<exists>pre' b post'. (pre @ m # mid) @ x # [] @ xs = pre' @ b # post'
           \<and> py_extremum better key (x, kv x) xs = Inr b
           \<and> (\<forall>x\<in>set pre'. lt (rank x) (rank b)) \<and> (\<forall>x\<in>set post'. \<not> lt (rank b) (rank x))"
    proof (rule Cons.IH)
      show "\<And>y. y \<in> set ((pre @ m # mid) @ x # [] @ xs) \<Longrightarrow> key y = Inr (kv y)"
        using Cons.prems(1) by simp
      show "\<And>u v. u \<in> set ((pre @ m # mid) @ x # [] @ xs)
                \<Longrightarrow> v \<in> set ((pre @ m # mid) @ x # [] @ xs)
                \<Longrightarrow> better (kv u) (kv v) = Inr (lt (rank v) (rank u))"
        using Cons.prems(2) by simp
      show "\<forall>y\<in>set (pre @ m # mid). lt (rank y) (rank x)"
      proof
        fix y assume "y \<in> set (pre @ m # mid)"
        then consider "y \<in> set pre" | "y = m" | "y \<in> set mid" by auto
        then show "lt (rank y) (rank x)"
        proof cases
          case 1
          then show ?thesis using Cons.prems(3) True tr1 by blast
        next
          case 2
          then show ?thesis using True by simp
        next
          case 3
          then show ?thesis using Cons.prems(4) True tr2 by blast
        qed
      qed
      show "\<forall>y\<in>set []. \<not> lt (rank x) (rank y)" by simp
    qed
    then show ?thesis using kx bx True by simp
  next
    case False
    have "\<exists>pre' b post'. pre @ m # (mid @ [x]) @ xs = pre' @ b # post'
           \<and> py_extremum better key (m, kv m) xs = Inr b
           \<and> (\<forall>x\<in>set pre'. lt (rank x) (rank b)) \<and> (\<forall>x\<in>set post'. \<not> lt (rank b) (rank x))"
    proof (rule Cons.IH)
      show "\<And>y. y \<in> set (pre @ m # (mid @ [x]) @ xs) \<Longrightarrow> key y = Inr (kv y)"
        using Cons.prems(1) by simp
      show "\<And>u v. u \<in> set (pre @ m # (mid @ [x]) @ xs)
                \<Longrightarrow> v \<in> set (pre @ m # (mid @ [x]) @ xs)
                \<Longrightarrow> better (kv u) (kv v) = Inr (lt (rank v) (rank u))"
        using Cons.prems(2) by simp
      show "\<forall>y\<in>set pre. lt (rank y) (rank m)" using Cons.prems(3) .
      show "\<forall>y\<in>set (mid @ [x]). \<not> lt (rank m) (rank y)" using Cons.prems(4) False by auto
    qed
    then show ?thesis using kx bx False by simp
  qed
qed

lemma py_min_max_decomp:
  assumes tr1: "\<And>a b c. lt a b \<Longrightarrow> lt b c \<Longrightarrow> lt a c"
    and tr2: "\<And>a b c. \<not> lt b a \<Longrightarrow> lt b c \<Longrightarrow> lt a c"
    and keys: "\<And>x. x \<in> set xs \<Longrightarrow> key x = Inr (kv x)"
    and cmp: "\<And>x y. x \<in> set xs \<Longrightarrow> y \<in> set xs
                \<Longrightarrow> better (kv x) (kv y) = Inr (lt (rank y) (rank x))"
    and ne: "xs \<noteq> []"
  shows "\<exists>pre b post. xs = pre @ b # post \<and> py_min_max better xs key = Inr b
           \<and> (\<forall>x\<in>set pre. lt (rank x) (rank b)) \<and> (\<forall>x\<in>set post. \<not> lt (rank b) (rank x))"
proof -
  obtain m rest where xs: "xs = m # rest" using ne by (cases xs) auto
  have "\<exists>pre' b post'. [] @ m # [] @ rest = pre' @ b # post'
           \<and> py_extremum better key (m, kv m) rest = Inr b
           \<and> (\<forall>x\<in>set pre'. lt (rank x) (rank b)) \<and> (\<forall>x\<in>set post'. \<not> lt (rank b) (rank x))"
    by (rule py_extremum_decomp[where lt = lt, OF tr1 tr2]) (use keys cmp xs in auto)
  moreover have "key m = Inr (kv m)" using keys xs by simp
  ultimately show ?thesis unfolding xs py_min_max_def by simp
qed

lemma get_best_checkpoint_valid:
  assumes "best_checkpoints self = Some bcs"
    and "mode = ''max'' \<or> mode = ''min''"
    and "filter (\<lambda>ci. dict_contains (snd ci) metric) bcs \<noteq> []"
  shows "get_best_checkpoint self metric mode =
           (case (if mode = ''max'' then py_max else py_min)
                   (filter (\<lambda>ci. dict_contains (snd ci) metric) bcs)
                   (\<lambda>x. dict_getitem (snd x) metric) of
              Inl e \<Rightarrow> Inl e | Inr best \<Rightarrow> Inr (fst best))"
proof -
  from assms(3) obtain b bs where "bcs = b # bs" by (cases bcs) auto
  then show ?thesis using assms by (auto simp: get_best_checkpoint_def Let_def)
qed

text \<open>
  The same for values ranked by any linear order that both Python's comparison and
  \<^const>\<open>value_less\<close> follow on them.
\<close>

lemma get_best_checkpoint_ranked:
  fixes rank :: "checkpoint \<times> pydict \<Rightarrow> 'r::linorder"
  assumes bcs: "best_checkpoints self = Some bcs"
    and mode: "mode = ''max'' \<or> mode = ''min''"
    and valid: "valid = filter (\<lambda>ci. dict_contains (snd ci) metric) bcs"
    and ne: "valid \<noteq> []"
    and vals: "\<And>ci. ci \<in> set valid \<Longrightarrow> dict_getitem (snd ci) metric = Inr (v ci)"
    and gt: "\<And>a b. a \<in> set valid \<Longrightarrow> b \<in> set valid \<Longrightarrow> py_gt (v a) (v b) = Inr (rank b < rank a)"
    and less: "\<And>a b. a \<in> set valid \<Longrightarrow> b \<in> set valid
                 \<Longrightarrow> value_less (v a) (v b) = (rank a < rank b)"
  shows "\<exists>pre best post. valid = pre @ best # post
           \<and> get_best_checkpoint self metric mode = Inr (fst best)
           \<and> (\<forall>ci\<in>set pre. if mode = ''max'' then value_less (v ci) (v best)
                             else value_less (v best) (v ci))
           \<and> (\<forall>ci\<in>set post. if mode = ''max'' then \<not> value_less (v best) (v ci)
                              else \<not> value_less (v ci) (v best))"
proof -
  define key where "key = (\<lambda>x :: checkpoint \<times> pydict. dict_getitem (snd x) metric)"
  have key: "key x = Inr (v x)" if "x \<in> set valid" for x
    using vals that by (simp add: key_def)
  have eq: "get_best_checkpoint self metric mode =
           (case (if mode = ''max'' then py_max else py_min) valid key of
              Inl e \<Rightarrow> Inl e | Inr best \<Rightarrow> Inr (fst best))"
    unfolding valid key_def using bcs mode ne[unfolded valid] by (rule get_best_checkpoint_valid)
  show ?thesis
  proof (cases "mode = ''max''")
    case True
    have "\<exists>pre b post. valid = pre @ b # post \<and> py_min_max py_gt valid key = Inr b
           \<and> (\<forall>x\<in>set pre. rank x < rank b) \<and> (\<forall>x\<in>set post. \<not> rank b < rank x)"
      by (rule py_min_max_decomp[where kv = v and lt = "(<)"]) (use key gt ne in auto)
    then obtain pre b post where d: "valid = pre @ b # post" "py_min_max py_gt valid key = Inr b"
      "\<forall>x\<in>set pre. rank x < rank b" "\<forall>x\<in>set post. \<not> rank b < rank x" by blast
    have "\<forall>ci\<in>set pre. value_less (v ci) (v b)" "\<forall>ci\<in>set post. \<not> value_less (v b) (v ci)"
      using d less by auto
    then show ?thesis using eq True d(1,2)
      by (intro exI[of _ pre] exI[of _ b] exI[of _ post]) (simp add: py_max_def)
  next
    case False
    have "\<exists>pre b post. valid = pre @ b # post \<and> py_min_max py_lt valid key = Inr b
           \<and> (\<forall>x\<in>set pre. rank b < rank x) \<and> (\<forall>x\<in>set post. \<not> rank x < rank b)"
      by (rule py_min_max_decomp[where kv = v and lt = "\<lambda>a b. b < a"])
         (use key gt ne in \<open>auto simp: py_lt_def\<close>)
    then obtain pre b post where d: "valid = pre @ b # post" "py_min_max py_lt valid key = Inr b"
      "\<forall>x\<in>set pre. rank b < rank x" "\<forall>x\<in>set post. \<not> rank x < rank b" by blast
    have "\<forall>ci\<in>set pre. value_less (v b) (v ci)" "\<forall>ci\<in>set post. \<not> value_less (v ci) (v b)"
      using d less by auto
    then show ?thesis using eq False mode d(1,2)
      by (intro exI[of _ pre] exI[of _ b] exI[of _ post]) (simp add: py_min_def)
  qed
qed

text \<open>
  C1 (as amended).  Let the records whose snapshot contains the metric be \<open>valid\<close>, not
  empty, with the values \<open>v\<close> of the metric, and let these values be mutually comparable:
  all of them numbers (integers, floats, plus or minus infinity, booleans; not NaN), or
  all of them texts.  Then \<^verbatim>\<open>get_best_checkpoint\<close> returns the checkpoint of a record
  \<open>best\<close> of \<open>valid\<close> such that every record before it has a strictly worse value and no
  record after it has a better one: the first record, in checkpoint order, with the
  largest value for \<^verbatim>\<open>max\<close> and with the smallest for \<^verbatim>\<open>min\<close>.
\<close>

theorem get_best_checkpoint_first_extremal:
  assumes bcs: "best_checkpoints self = Some bcs"
    and mode: "mode = ''max'' \<or> mode = ''min''"
    and valid: "valid = filter (\<lambda>ci. dict_contains (snd ci) metric) bcs"
    and ne: "valid \<noteq> []"
    and vals: "\<forall>ci\<in>set valid. dict_getitem (snd ci) metric = Inr (v ci)"
    and comparable: "(\<forall>ci\<in>set valid. number_key (v ci) \<noteq> None)
                     \<or> (\<forall>ci\<in>set valid. \<exists>s. v ci = PyStr s)"
  shows "\<exists>pre best post. valid = pre @ best # post
           \<and> get_best_checkpoint self metric mode = Inr (fst best)
           \<and> (\<forall>ci\<in>set pre. if mode = ''max'' then value_less (v ci) (v best)
                             else value_less (v best) (v ci))
           \<and> (\<forall>ci\<in>set post. if mode = ''max'' then \<not> value_less (v best) (v ci)
                              else \<not> value_less (v ci) (v best))"
  using comparable
proof
  assume numbers: "\<forall>ci\<in>set valid. number_key (v ci) \<noteq> None"
  define rank where "rank = (\<lambda>ci. the (number_key (v ci)))"
  have k: "number_key (v ci) = Some (rank ci)" if "ci \<in> set valid" for ci
    using numbers that by (auto simp: rank_def)
  show ?thesis
    by (rule get_best_checkpoint_ranked[where rank = rank, OF bcs mode valid ne])
       (use vals k in \<open>auto simp: py_gt_numbers value_less_numbers\<close>)
next
  assume texts: "\<forall>ci\<in>set valid. \<exists>s. v ci = PyStr s"
  define rank where "rank = (\<lambda>ci. case v ci of PyStr s \<Rightarrow> s | _ \<Rightarrow> [])"
  have k: "v ci = PyStr (rank ci)" if "ci \<in> set valid" for ci
    using texts that by (auto simp: rank_def)
  have gt: "py_gt (v a) (v b) = Inr (rank b < rank a)"
    and less: "value_less (v a) (v b) = (rank a < rank b)"
    if "a \<in> set valid" "b \<in> set valid" for a b
    using k[OF that(1)] k[OF that(2)] by (simp_all add: value_less_texts)
  show ?thesis
    by (rule get_best_checkpoint_ranked[where rank = rank, OF bcs mode valid ne])
       (use vals gt less in auto)
qed

theorem get_best_checkpoint_first_extremal_witness:
  "(\<exists>pre best post. example_records = pre @ best # post
      \<and> get_best_checkpoint example_result ''metric_a'' ''max'' = Inr (fst best)
      \<and> (\<forall>ci\<in>set pre. value_less (example_value ''metric_a'' ci) (example_value ''metric_a'' best))
      \<and> (\<forall>ci\<in>set post. \<not> value_less (example_value ''metric_a'' best)
                                       (example_value ''metric_a'' ci)))
   \<and> (\<exists>pre best post. the (best_checkpoints text_result) = pre @ best # post
      \<and> get_best_checkpoint text_result ''grade'' ''min'' = Inr (fst best)
      \<and> (\<forall>ci\<in>set pre. value_less (example_value ''grade'' best) (example_value ''grade'' ci))
      \<and> (\<forall>ci\<in>set post. \<not> value_less (example_value ''grade'' ci)
                                       (example_value ''grade'' best)))"
proof
  show "\<exists>pre best post. example_records = pre @ best # post
      \<and> get_best_checkpoint example_result ''metric_a'' ''max'' = Inr (fst best)
      \<and> (\<forall>ci\<in>set pre. value_less (example_value ''metric_a'' ci) (example_value ''metric_a'' best))
      \<and> (\<forall>ci\<in>set post. \<not> value_less (example_value ''metric_a'' best)
                                       (example_value ''metric_a'' ci))"
    using get_best_checkpoint_first_extremal
            [of example_result example_records "''max''" example_records "''metric_a''"
                "example_value ''metric_a''"]
    by (simp add: example_result_def example_records_def example_value_def dict_contains_def
          dict_getitem_def dict_get_def)
  show "\<exists>pre best post. the (best_checkpoints text_result) = pre @ best # post
      \<and> get_best_checkpoint text_result ''grade'' ''min'' = Inr (fst best)
      \<and> (\<forall>ci\<in>set pre. value_less (example_value ''grade'' best) (example_value ''grade'' ci))
      \<and> (\<forall>ci\<in>set post. \<not> value_less (example_value ''grade'' ci)
                                       (example_value ''grade'' best))"
    using get_best_checkpoint_first_extremal
            [of text_result "the (best_checkpoints text_result)" "''min''"
                "the (best_checkpoints text_result)" "''grade''" "example_value ''grade''"]
    by (simp add: text_result_def example_value_def dict_contains_def dict_getitem_def
          dict_get_def)
qed

text \<open>
  Without the condition the call need not return the extremal record.  Where the metric is
  a text in one snapshot and a number in another, the comparison of \<^verbatim>\<open>max\<close> raises
  \<^verbatim>\<open>TypeError\<close>, although both snapshots contain the metric.  Where the first record
  holds NaN, which is what a restored snapshot has under a key its row did not report, it
  is returned for \<^verbatim>\<open>max\<close> and for \<^verbatim>\<open>min\<close> alike, before the records with 1 and 2,
  since every comparison with NaN is false.
\<close>

theorem get_best_checkpoint_incomparable_counterexample:
  "get_best_checkpoint mixed_result ''status'' ''max'' = Inl TypeError
   \<and> get_best_checkpoint nan_result ''score'' ''max''
       = Inr (Checkpoint ''/trial/checkpoint_000000'' example_fs)
   \<and> get_best_checkpoint nan_result ''score'' ''min''
       = Inr (Checkpoint ''/trial/checkpoint_000000'' example_fs)"
  by (simp add: get_best_checkpoint_def mixed_result_def nan_result_def dict_contains_def
        dict_getitem_def py_max_def py_min_def py_lt_def py_min_max_def)

text \<open>
  C8.  When no record's snapshot contains the metric and the result has a metrics mapping,
  the call raises the \<^verbatim>\<open>RuntimeError\<close> "Invalid metric name" whose message carries the
  requested name and the keys of the result's metrics mapping.
\<close>

theorem get_best_checkpoint_unknown_metric:
  assumes "best_checkpoints self = Some bcs" and "bcs \<noteq> []"
    and "mode = ''max'' \<or> mode = ''min''"
    and "\<forall>ci\<in>set bcs. \<not> dict_contains (snd ci) metric"
    and "metrics self = Some m"
  shows "get_best_checkpoint self metric mode =
           Inl (RuntimeError (Invalid_metric_name metric (map fst m)))"
proof -
  from assms(2) obtain b bs where "bcs = b # bs" by (cases bcs) auto
  moreover have "filter (\<lambda>ci. dict_contains (snd ci) metric) bcs = []"
    using assms(4) by (simp add: filter_empty_conv)
  ultimately show ?thesis
    using assms(1,3,5) by (auto simp: get_best_checkpoint_def Let_def dict_keys_def)
qed

theorem get_best_checkpoint_unknown_metric_witness:
  "get_best_checkpoint example_result ''invalid_metric'' ''max'' =
     Inl (RuntimeError (Invalid_metric_name ''invalid_metric'' [''metric_a'', ''metric_b'']))"
  using get_best_checkpoint_unknown_metric
          [of example_result example_records "''max''" "''invalid_metric''"
              "[(''metric_a'', PyNum 4), (''metric_b'', PyNum (-4))]"]
  by (simp add: example_result_def example_records_def dict_contains_def)

text \<open>
  The message is built from \<^verbatim>\<open>self.metrics.keys()\<close>: a result constructed with
  \<^verbatim>\<open>metrics=None\<close> raises \<^verbatim>\<open>AttributeError\<close> there instead.  A restored result
  always has a metrics mapping.
\<close>

lemma get_best_checkpoint_unknown_metric_no_metrics:
  assumes "best_checkpoints self = Some bcs" and "bcs \<noteq> []"
    and "mode = ''max'' \<or> mode = ''min''"
    and "\<forall>ci\<in>set bcs. \<not> dict_contains (snd ci) metric"
    and "metrics self = None"
  shows "get_best_checkpoint self metric mode = Inl AttributeError"
proof -
  from assms(2) obtain b bs where "bcs = b # bs" by (cases bcs) auto
  moreover have "filter (\<lambda>ci. dict_contains (snd ci) metric) bcs = []"
    using assms(4) by (simp add: filter_empty_conv)
  ultimately show ?thesis
    using assms(1,3,5) by (auto simp: get_best_checkpoint_def Let_def)
qed

section \<open>The configuration of a result\<close>

text \<open>
  C10.  \<^verbatim>\<open>Result.config\<close> has no failing branch: it is \<^verbatim>\<open>None\<close> when the metrics
  mapping is absent or empty, and otherwise the value stored under \<^verbatim>\<open>"config"\<close>, or
  \<^verbatim>\<open>None\<close> when the mapping has no such key.
\<close>

theorem config_never_raises:
  "config self = (case metrics self of
                    None \<Rightarrow> PyNone
                  | Some m \<Rightarrow> (case map_of m ''config'' of None \<Rightarrow> PyNone | Some v \<Rightarrow> v))
   \<and> config (self\<lparr>metrics := None\<rparr>) = PyNone
   \<and> config (self\<lparr>metrics := Some []\<rparr>) = PyNone"
  by (simp add: config_def dict_get_def split: option.splits)

section \<open>The scan for checkpoint directories\<close>

lemma foldl_decimal_shift:
  fixes a :: nat
  assumes f: "f = (\<lambda>n c. 10 * n + (of_char c - 48))"
  shows "foldl f a ds = a * 10 ^ length ds + foldl f 0 ds"
proof (induction ds arbitrary: a)
  case Nil
  show ?case by simp
next
  case (Cons d ds)
  have "foldl f a (d # ds) = foldl f (f a d) ds" by simp
  also have "\<dots> = f a d * 10 ^ length ds + foldl f 0 ds" by (rule Cons.IH)
  also have "f a d = a * 10 + f 0 d" by (simp add: f)
  finally have "foldl f a (d # ds) = a * 10 ^ length (d # ds) + (f 0 d * 10 ^ length ds + foldl f 0 ds)"
    by (simp add: algebra_simps)
  also have "f 0 d * 10 ^ length ds + foldl f 0 ds = foldl f (f 0 d) ds"
    by (rule Cons.IH[symmetric])
  finally show ?case by simp
qed

lemma decimal_Cons:
  "decimal (d # ds) = (of_char d - 48) * 10 ^ length ds + decimal ds"
  unfolding decimal_def
  using foldl_decimal_shift[OF refl, of "of_char d - 48" ds] by simp

lemma digit_value_less: "is_digit c \<Longrightarrow> (of_char c :: nat) - 48 \<le> 9"
proof -
  assume "is_digit c"
  then have "(of_char c :: nat) \<le> of_char CHR ''9''" by (simp only: is_digit_def less_eq_char_def)
  moreover have "(of_char CHR ''9'' :: nat) = 57" by simp
  ultimately have "(of_char c :: nat) \<le> 57" by (simp only:)
  then show ?thesis by linarith
qed

lemma decimal_bound: "\<forall>c\<in>set ds. is_digit c \<Longrightarrow> decimal ds < 10 ^ length ds"
proof (induction ds)
  case Nil
  show ?case by (simp add: decimal_def)
next
  case (Cons d ds)
  have "(of_char d :: nat) - 48 \<le> 9" using digit_value_less[of d] Cons.prems by simp
  then have "((of_char d :: nat) - 48) * 10 ^ length ds \<le> 9 * 10 ^ length ds"
    by (rule mult_le_mono1)
  moreover have "decimal ds < 10 ^ length ds" using Cons by simp
  ultimately have "((of_char d :: nat) - 48) * 10 ^ length ds + decimal ds < 10 * 10 ^ length ds"
    by linarith
  then show ?case by (simp add: decimal_Cons)
qed

lemma decimal_mono:
  assumes "length ds = length es" "\<forall>c\<in>set ds. is_digit c" "\<forall>c\<in>set es. is_digit c" "ds \<le> es"
  shows "decimal ds \<le> decimal es"
  using assms
proof (induction ds es rule: list_induct2)
  case Nil
  show ?case by simp
next
  case (Cons d ds e es)
  from Cons.prems(3) consider "d < e" | "d = e" "ds \<le> es" by auto
  then show ?case
  proof cases
    case 1
    have dv: "(of_char d :: nat) \<ge> 48" "(of_char d :: nat) < of_char e"
      using Cons.prems(1) 1 by (simp_all add: is_digit_def less_eq_char_def less_char_def)
    then have "(of_char d :: nat) - 48 + 1 \<le> of_char e - 48" by simp
    then have "((of_char d :: nat) - 48 + 1) * 10 ^ length ds \<le> (of_char e - 48) * 10 ^ length ds"
      by (rule mult_le_mono1)
    moreover have "decimal ds < 10 ^ length ds" using decimal_bound Cons.prems(1) by simp
    ultimately show ?thesis using Cons.hyps by (simp add: decimal_Cons algebra_simps)
  next
    case 2
    then show ?thesis using Cons by (simp add: decimal_Cons)
  qed
qed

lemma append_le_append_same: "(p @ xs \<le> p @ ys) = (xs \<le> (ys :: 'a::linorder list))"
  by (induction p) auto

lemma checkpoint_index_mono:
  assumes "a = ''checkpoint_'' @ ds" "b = ''checkpoint_'' @ es" "length ds = length es"
    "\<forall>c\<in>set ds. is_digit c" "\<forall>c\<in>set es. is_digit c" "a \<le> b"
  shows "checkpoint_index a \<le> checkpoint_index b"
proof -
  have "ds \<le> es" using assms(1,2,6) append_le_append_same[of "''checkpoint_''" ds es] by simp
  then have "decimal ds \<le> decimal es" using assms by (intro decimal_mono) auto
  then show ?thesis using assms(1,2) by (simp add: checkpoint_index_def)
qed

lemma sorted_checkpoint_index:
  assumes "sorted dirs"
    and "\<forall>d\<in>set dirs. \<exists>ds. d = ''checkpoint_'' @ ds \<and> length ds = w \<and> (\<forall>c\<in>set ds. is_digit c)"
  shows "sorted (map checkpoint_index dirs)"
proof -
  have "sorted_wrt (\<lambda>a b. checkpoint_index a \<le> checkpoint_index b) dirs"
  proof (rule sorted_wrt_mono_rel[OF _ assms(1)])
    fix a b assume "a \<in> set dirs" "b \<in> set dirs" "a \<le> b"
    then show "checkpoint_index a \<le> checkpoint_index b"
      using assms(2) by (metis checkpoint_index_mono)
  qed
  then show ?thesis by (simp add: sorted_map)
qed

lemma startswith_prefix: "startswith s p = prefix p s"
  by (auto simp: startswith_def prefix_def) (metis append_eq_conv_conj)

text \<open>
  C3 (as amended).  The scan keeps exactly the listed entries that are directories and whose
  name starts with \<^verbatim>\<open>checkpoint_\<close>, each as often as it is listed, and returns the
  names in ascending lexicographic order.
\<close>

theorem checkpoint_dirs_of_prefix_sorted:
  "set (checkpoint_dirs_of items) = {name. (name, Directory) \<in> set items \<and> prefix ''checkpoint_'' name}
   \<and> length (checkpoint_dirs_of items)
       = length (filter (\<lambda>item. snd item = Directory \<and> prefix ''checkpoint_'' (fst item)) items)
   \<and> sorted (checkpoint_dirs_of items)"
  by (auto simp: checkpoint_dirs_of_def startswith_prefix image_iff)

text \<open>
  The scan tests the prefix only: a directory named \<^verbatim>\<open>checkpoint_tmp\<close>, which has no
  numeric index, is kept.
\<close>

theorem checkpoint_dirs_of_counterexample:
  "checkpoint_dirs_of [(''checkpoint_tmp'', Directory), (''checkpoint_000001'', Directory),
                       (''checkpoint_000002'', File)]
     = [''checkpoint_000001'', ''checkpoint_tmp'']"
  by (simp add: checkpoint_dirs_of_def startswith_def)

section \<open>Restoring: values and events of each step\<close>

lemma fst_io_bind:
  "fst (io_bind m f) = (case fst m of Inl e \<Rightarrow> Inl e | Inr x \<Rightarrow> fst (f x))"
  by (cases m) (auto simp: io_bind_def split: sum.splits prod.splits)

lemma snd_io_bind:
  "snd (io_bind m f) = (case fst m of Inl e \<Rightarrow> snd m | Inr x \<Rightarrow> snd m @ snd (f x))"
  by (cases m) (auto simp: io_bind_def split: sum.splits prod.splits)

lemma fst_io_simps:
  "fst (io_return x) = Inr x"
  "fst (io_raise e) = Inl e"
  "fst (io_try r) = r"
  "fst (io_call c) = (case c of Inl e \<Rightarrow> Inl (External e) | Inr x \<Rightarrow> Inr x)"
  "fst (io_log_warning w) = Inr ()"
  "fst (exists_at_fs_path fs p) = Inr (fs_exists fs p)"
  "fst (read_all fs p) = (case open_input_stream fs p of Inl e \<Rightarrow> Inl (External e) | Inr b \<Rightarrow> Inr b)"
  "fst (list_directory fs p) = (case get_file_info fs p of Inl e \<Rightarrow> Inl (External e) | Inr b \<Rightarrow> Inr b)"
  by (simp_all add: io_return_def io_raise_def io_try_def io_call_def io_log_warning_def
        exists_at_fs_path_def read_all_def list_directory_def split: sum.splits)

lemma snd_io_simps:
  "snd (io_return x) = []"
  "snd (io_raise e) = []"
  "snd (io_try r) = []"
  "snd (io_call c) = []"
  "snd (io_log_warning w) = [LogWarning w]"
  "snd (exists_at_fs_path fs p) = [Exists p]"
  "snd (read_all fs p) = [OpenInputStream p]"
  "snd (list_directory fs p) = [GetFileInfo p]"
  by (simp_all add: io_return_def io_raise_def io_try_def io_call_def io_log_warning_def
        exists_at_fs_path_def read_all_def list_directory_def split: sum.splits)

lemma fst_validate_trial_dir:
  "fst (validate_trial_dir p fs) =
     (if fs_exists fs p then Inr () else Inl (RuntimeError (Trial_folder_doesnt_exist p)))"
  by (simp add: validate_trial_dir_def fst_io_bind fst_io_simps)

lemma snd_validate_trial_dir: "snd (validate_trial_dir p fs) = [Exists p]"
  by (simp add: validate_trial_dir_def snd_io_bind snd_io_simps fst_io_simps)

lemma fst_latest_metrics_of:
  "fst (latest_metrics_of env df) = Inr (if df_empty df then [] else row_to_dict env df (last (rows df)))"
  by (simp add: latest_metrics_of_def fst_io_bind fst_io_simps iloc_last_def df_empty_def)

lemma snd_latest_metrics_of: "snd (latest_metrics_of env df) = []"
  by (simp add: latest_metrics_of_def snd_io_bind snd_io_simps fst_io_simps split: sum.splits)

lemma fst_restore_metrics_df:
  "fst (restore_metrics_df env fs fs_path) =
     (if fs_exists fs (os_path_join fs_path (EXPR_RESULT_FILE env)) then
        (case open_input_stream fs (os_path_join fs_path (EXPR_RESULT_FILE env)) of
           Inl e \<Rightarrow> Inl (External e)
         | Inr bytes \<Rightarrow>
            (case decode_utf8 env bytes of
               Inl e \<Rightarrow> Inl (External e)
             | Inr text \<Rightarrow>
                (case call_each (json_loads env) (filter (\<lambda>line. line \<noteq> []) (split_newline text)) of
                   Inl e \<Rightarrow> Inl (External e)
                 | Inr json_list \<Rightarrow>
                    (case json_normalize env json_list of
                       Inl e \<Rightarrow> Inl (External e)
                     | Inr df \<Rightarrow> Inr df))))
      else if fs_exists fs (os_path_join fs_path (EXPR_PROGRESS_FILE env)) then
        (case open_input_stream fs (os_path_join fs_path (EXPR_PROGRESS_FILE env)) of
           Inl e \<Rightarrow> Inl (External e)
         | Inr bytes \<Rightarrow>
            (case decode_utf8 env bytes of
               Inl e \<Rightarrow> Inl (External e)
             | Inr text \<Rightarrow>
                (case read_csv env text of
                   Inl e \<Rightarrow> Inl (External e)
                 | Inr df \<Rightarrow> Inr df)))
      else Inl (RuntimeError (Neither_log_exists (EXPR_RESULT_FILE env) (EXPR_PROGRESS_FILE env))))"
  by (simp add: restore_metrics_df_def Let_def fst_io_bind fst_io_simps split: sum.splits)

lemma snd_restore_metrics_df:
  "snd (restore_metrics_df env fs fs_path) =
     Exists (os_path_join fs_path (EXPR_RESULT_FILE env)) #
     (if fs_exists fs (os_path_join fs_path (EXPR_RESULT_FILE env))
      then [OpenInputStream (os_path_join fs_path (EXPR_RESULT_FILE env))]
      else Exists (os_path_join fs_path (EXPR_PROGRESS_FILE env)) #
           (if fs_exists fs (os_path_join fs_path (EXPR_PROGRESS_FILE env))
            then [OpenInputStream (os_path_join fs_path (EXPR_PROGRESS_FILE env))]
            else []))"
  by (simp add: restore_metrics_df_def Let_def snd_io_bind snd_io_simps fst_io_bind fst_io_simps
        split: sum.splits)

lemma fst_restore_error:
  "fst (restore_error env fs fs_path) =
     (if fs_exists fs (os_path_join fs_path (EXPR_ERROR_PICKLE_FILE env)) then
        (case open_input_stream fs (os_path_join fs_path (EXPR_ERROR_PICKLE_FILE env)) of
           Inl e \<Rightarrow> Inl (External e)
         | Inr bytes \<Rightarrow>
            (case cloudpickle_load env bytes of
               Inl e \<Rightarrow> Inl (External e)
             | Inr err \<Rightarrow> Inr (Some err)))
      else Inr None)"
  by (simp add: restore_error_def Let_def fst_io_bind fst_io_simps split: sum.splits)

lemma snd_restore_error:
  "snd (restore_error env fs fs_path) =
     Exists (os_path_join fs_path (EXPR_ERROR_PICKLE_FILE env)) #
     (if fs_exists fs (os_path_join fs_path (EXPR_ERROR_PICKLE_FILE env))
      then [OpenInputStream (os_path_join fs_path (EXPR_ERROR_PICKLE_FILE env))]
      else [])"
  by (simp add: restore_error_def Let_def snd_io_bind snd_io_simps fst_io_bind fst_io_simps
        split: sum.splits)

lemma filter_zip_map: "map fst (filter snd (zip xs (map g xs))) = filter g xs"
  by (induction xs) auto

lemma rows_correlated:
  "rows (df_getitem_mask df (series_eq (map (\<lambda>r. row_cell df r c) (rows df)) d))
     = matching_rows df c d"
  by (simp add: df_getitem_mask_def series_eq_def matching_rows_def o_def
        filter_zip_map[of _ "\<lambda>r. row_cell df r c = PyStr d", simplified])

lemma columns_df_getitem_mask: "columns (df_getitem_mask df sel) = columns df"
  by (simp add: df_getitem_mask_def)

lemma row_to_dict_df_getitem_mask:
  "row_to_dict env (df_getitem_mask df sel) r = row_to_dict env df r"
  by (simp add: row_to_dict_def columns_df_getitem_mask)

lemma matching_rows_column:
  assumes "matching_rows df key name \<noteq> []"
  shows "key \<in> set (columns df)"
proof -
  from assms obtain r where "row_cell df r key = PyStr name"
    by (auto simp: matching_rows_def filter_empty_conv)
  then have "map_of (zip (columns df) r) key \<noteq> None"
    by (auto simp: dict_get_def row_cell_def split: option.splits)
  then show ?thesis by (auto dest: map_of_SomeD set_zip_leftD)
qed

lemma correlate_step:
  assumes "c \<in> set (columns df)"
  shows "df_getitem_column df c = Inr (map (\<lambda>r. row_cell df r c) (rows df))"
    and "df_empty (df_getitem_mask df
                     (series_eq (map (\<lambda>r. row_cell df r c) (rows df)) d))
           = (matching_rows df c d = [])"
    and "iloc_last (df_getitem_mask df
                      (series_eq (map (\<lambda>r. row_cell df r c) (rows df)) d))
           = (if matching_rows df c d = [] then Inl IndexError
              else Inr (last (matching_rows df c d)))"
proof -
  show "df_getitem_column df c = Inr (map (\<lambda>r. row_cell df r c) (rows df))"
    using assms by (simp add: df_getitem_column_def)
  have ne: "columns df \<noteq> []" using assms by auto
  show "df_empty (df_getitem_mask df
                    (series_eq (map (\<lambda>r. row_cell df r c) (rows df)) d))
           = (matching_rows df c d = [])"
    using ne by (simp add: df_empty_def rows_correlated columns_df_getitem_mask)
  show "iloc_last (df_getitem_mask df
                     (series_eq (map (\<lambda>r. row_cell df r c) (rows df)) d))
           = (if matching_rows df c d = [] then Inl IndexError
              else Inr (last (matching_rows df c d)))"
    by (simp add: iloc_last_def rows_correlated)
qed

lemma fst_checkpoint_metrics:
  assumes "CHECKPOINT_DIR_NAME env \<in> set (columns df)"
  shows "fst (checkpoint_metrics env df dirs) =
           Inr (map (correlated_snapshot env df) dirs)"
proof (induction dirs)
  case Nil
  show ?case by (simp add: fst_io_simps)
next
  case (Cons d dirs)
  show ?case
    using Cons
    by (simp add: fst_io_bind fst_io_simps Let_def correlate_step[OF assms]
          correlated_snapshot_def row_to_dict_df_getitem_mask)
qed

lemma fst_checkpoint_metrics_KeyError:
  assumes "CHECKPOINT_DIR_NAME env \<notin> set (columns df)" and "dirs \<noteq> []"
  shows "fst (checkpoint_metrics env df dirs) = Inl (KeyError (CHECKPOINT_DIR_NAME env))"
  using assms by (cases dirs) (simp_all add: fst_io_bind fst_io_simps df_getitem_column_def)

lemma snd_checkpoint_metrics:
  "ev \<in> set (snd (checkpoint_metrics env df dirs)) \<Longrightarrow> \<exists>w. ev = LogWarning w"
  by (induction dirs arbitrary: ev)
     (auto simp: snd_io_bind snd_io_simps fst_io_simps Let_def split: sum.splits if_splits)

lemma fst_restore_checkpoints:
  "fst (restore_checkpoints env fs fs_path df dirs) =
     (if dirs = [] then Inr (None, None)
      else (case fst (checkpoint_metrics env df dirs) of
              Inl e \<Rightarrow> Inl e
            | Inr ms \<Rightarrow> Inr (Some (zip (map (\<lambda>d. Checkpoint (os_path_join fs_path d) fs) dirs) ms),
                            Some (Checkpoint (os_path_join fs_path (last dirs)) fs))))"
  by (simp add: restore_checkpoints_def fst_io_bind fst_io_simps Let_def last_map split: sum.splits)

lemma snd_restore_checkpoints:
  "ev \<in> set (snd (restore_checkpoints env fs fs_path df dirs)) \<Longrightarrow> \<exists>w. ev = LogWarning w"
  by (auto simp: restore_checkpoints_def snd_io_bind snd_io_simps Let_def
           split: sum.splits if_splits dest: snd_checkpoint_metrics)

lemma fst_from_path:
  "fst (from_path env path sfs) =
     (case get_fs_and_path env path sfs of
        Inl e \<Rightarrow> Inl (External e)
      | Inr (fs, fs_path) \<Rightarrow>
          if \<not> fs_exists fs fs_path then Inl (RuntimeError (Trial_folder_doesnt_exist fs_path))
          else (case fst (restore_metrics_df env fs fs_path) of
                  Inl e \<Rightarrow> Inl e
                | Inr df \<Rightarrow>
                   (case get_file_info fs fs_path of
                      Inl e \<Rightarrow> Inl (External e)
                    | Inr items \<Rightarrow>
                       (case fst (restore_checkpoints env fs fs_path df (checkpoint_dirs_of items)) of
                          Inl e \<Rightarrow> Inl e
                        | Inr (best, latest) \<Rightarrow>
                           (case fst (restore_error env fs fs_path) of
                              Inl e \<Rightarrow> Inl e
                            | Inr err \<Rightarrow>
                                Inr \<lparr> metrics = Some (if df_empty df then []
                                                       else row_to_dict env df (last (rows df))),
                                      checkpoint = latest,
                                      error = err,
                                      metrics_dataframe = Some df,
                                      best_checkpoints = best,
                                      local_path = (if is_local fs then Some path else None),
                                      remote_path = Some fs_path,
                                      storage_filesystem = Some fs \<rparr>)))))"
  by (simp add: from_path_def fst_io_bind fst_io_simps fst_validate_trial_dir fst_latest_metrics_of
        split: sum.splits prod.splits)

lemma snd_from_path:
  assumes "get_fs_and_path env path sfs = Inr (fs, fs_path)"
  shows "snd (from_path env path sfs) =
     Exists fs_path #
     (if \<not> fs_exists fs fs_path then []
      else snd (restore_metrics_df env fs fs_path) @
        (case fst (restore_metrics_df env fs fs_path) of
           Inl e \<Rightarrow> []
         | Inr df \<Rightarrow> GetFileInfo fs_path #
            (case get_file_info fs fs_path of
               Inl e \<Rightarrow> []
             | Inr items \<Rightarrow>
                 snd (restore_checkpoints env fs fs_path df (checkpoint_dirs_of items)) @
                 (case fst (restore_checkpoints env fs fs_path df (checkpoint_dirs_of items)) of
                    Inl e \<Rightarrow> []
                  | Inr bl \<Rightarrow> snd (restore_error env fs fs_path)))))"
  using assms
  by (simp add: from_path_def snd_io_bind fst_io_bind fst_io_simps snd_io_simps
        fst_validate_trial_dir snd_validate_trial_dir fst_latest_metrics_of snd_latest_metrics_of
        split: sum.splits prod.splits)

section \<open>The checkpoint records of a restored result\<close>

lemma zip_map_same: "zip (map f xs) (map g xs) = map (\<lambda>x. (f x, g x)) xs"
  by (induction xs) auto

lemma from_path_records:
  assumes res: "get_fs_and_path env path sfs = Inr (fs, fs_path)"
    and root: "fs_exists fs fs_path"
    and log: "fst (restore_metrics_df env fs fs_path) = Inr df"
    and listing: "get_file_info fs fs_path = Inr items"
    and err: "fst (restore_error env fs fs_path) = Inr err"
    and col: "checkpoint_dirs_of items \<noteq> [] \<longrightarrow> CHECKPOINT_DIR_NAME env \<in> set (columns df)"
  shows "\<exists>r. fst (from_path env path sfs) = Inr r
           \<and> metrics_dataframe r = Some df
           \<and> (if checkpoint_dirs_of items = [] then best_checkpoints r = None \<and> checkpoint r = None
              else best_checkpoints r =
                     Some (map (\<lambda>d. (Checkpoint (os_path_join fs_path d) fs,
                                     correlated_snapshot env df d))
                               (checkpoint_dirs_of items))
                   \<and> checkpoint r =
                       Some (Checkpoint (os_path_join fs_path (last (checkpoint_dirs_of items))) fs))"
proof (cases "checkpoint_dirs_of items = []")
  case True
  then show ?thesis
    using res root log listing err
    by (simp add: fst_from_path fst_restore_checkpoints)
next
  case False
  then have c: "CHECKPOINT_DIR_NAME env \<in> set (columns df)" using col by simp
  show ?thesis
    using False res root log listing err
    by (simp add: fst_from_path fst_restore_checkpoints fst_checkpoint_metrics[OF c] zip_map_same)
qed


lemma checkpoint_dirs_of_sorted: "sorted (checkpoint_dirs_of items)"
  by (simp add: checkpoint_dirs_of_def)

lemma checkpoint_dirs_of_length:
  "length (checkpoint_dirs_of items)
     = length (filter (\<lambda>item. snd item = Directory \<and> prefix ''checkpoint_'' (fst item)) items)"
  by (simp add: checkpoint_dirs_of_def startswith_prefix)

text \<open>
  C2 (as amended).  Let the path resolve, the trial root exist, the metrics log be read and
  parsed into a table, the listing succeed and the error artifact be absent or loadable,
  and let \<open>dirs\<close> be the scanned checkpoint directories.  With no such directory the result
  has no record sequence at all (\<^verbatim>\<open>best_checkpoints\<close> and \<^verbatim>\<open>checkpoint\<close> are
  \<^verbatim>\<open>None\<close>).  With at least one, and a table that has the correlation column, the result
  has one record per directory, in ascending order of the directory names, which is the
  ascending order of the indices when all names are the prefix followed by digits of one
  width; a directory that matches no row has the empty snapshot; the current checkpoint is
  the last record's.
\<close>

theorem from_path_checkpoint_count:
  assumes res: "get_fs_and_path env path sfs = Inr (fs, fs_path)"
    and root: "fs_exists fs fs_path"
    and log: "fst (restore_metrics_df env fs fs_path) = Inr df"
    and listing: "get_file_info fs fs_path = Inr items"
    and err: "fst (restore_error env fs fs_path) = Inr err"
    and dirs: "dirs = checkpoint_dirs_of items"
    and col: "dirs \<noteq> [] \<longrightarrow> CHECKPOINT_DIR_NAME env \<in> set (columns df)"
  shows "\<exists>r. fst (from_path env path sfs) = Inr r
           \<and> (if dirs = [] then best_checkpoints r = None \<and> checkpoint r = None
              else \<exists>recs. best_checkpoints r = Some recs
                     \<and> length recs = length (filter (\<lambda>item. snd item = Directory
                                                   \<and> prefix ''checkpoint_'' (fst item)) items)
                     \<and> map fst recs = map (\<lambda>d. Checkpoint (os_path_join fs_path d) fs) dirs
                     \<and> sorted dirs
                     \<and> ((\<forall>d\<in>set dirs. \<exists>ds. d = ''checkpoint_'' @ ds \<and> length ds = w
                                             \<and> (\<forall>c\<in>set ds. is_digit c))
                          \<longrightarrow> sorted (map checkpoint_index dirs))
                     \<and> (\<forall>i<length recs. matching_rows df (CHECKPOINT_DIR_NAME env) (dirs ! i) = []
                                          \<longrightarrow> snd (recs ! i) = [])
                     \<and> checkpoint r = Some (fst (last recs)))"
proof -
  let ?key = "CHECKPOINT_DIR_NAME env"
  let ?recs = "map (\<lambda>d. (Checkpoint (os_path_join fs_path d) fs, correlated_snapshot env df d)) dirs"
  from from_path_records[OF res root log listing err] col dirs
  obtain r where r: "fst (from_path env path sfs) = Inr r"
    and rec: "if dirs = [] then best_checkpoints r = None \<and> checkpoint r = None
              else best_checkpoints r = Some ?recs
                   \<and> checkpoint r = Some (Checkpoint (os_path_join fs_path (last dirs)) fs)"
    by auto
  show ?thesis
  proof (cases "dirs = []")
    case True
    then show ?thesis using r rec by auto
  next
    case False
    have sorted: "sorted dirs" using dirs by (simp add: checkpoint_dirs_of_sorted)
    have "best_checkpoints r = Some ?recs" using rec False by simp
    moreover have "length ?recs = length (filter (\<lambda>item. snd item = Directory
                                                   \<and> prefix ''checkpoint_'' (fst item)) items)"
      using dirs by (simp add: checkpoint_dirs_of_length)
    moreover have "map fst ?recs = map (\<lambda>d. Checkpoint (os_path_join fs_path d) fs) dirs"
      by (simp add: o_def)
    moreover have "(\<forall>d\<in>set dirs. \<exists>ds. d = ''checkpoint_'' @ ds \<and> length ds = w
                                             \<and> (\<forall>c\<in>set ds. is_digit c))
                          \<longrightarrow> sorted (map checkpoint_index dirs)"
      using sorted_checkpoint_index[OF sorted] by blast
    moreover have "\<forall>i<length ?recs. matching_rows df ?key (dirs ! i) = [] \<longrightarrow> snd (?recs ! i) = []"
      by (simp add: correlated_snapshot_def)
    moreover have "checkpoint r = Some (fst (last ?recs))"
      using rec False by (simp add: last_map)
    ultimately show ?thesis using r False sorted by (intro exI[of _ r]) auto
  qed
qed

text \<open>
  C4.  Under the same conditions, a scanned directory whose name is the correlation-key
  value of at least one row of the table gets, as its snapshot, that of the last such row.
\<close>

theorem from_path_last_matching:
  assumes res: "get_fs_and_path env path sfs = Inr (fs, fs_path)"
    and root: "fs_exists fs fs_path"
    and log: "fst (restore_metrics_df env fs fs_path) = Inr df"
    and listing: "get_file_info fs fs_path = Inr items"
    and err: "fst (restore_error env fs fs_path) = Inr err"
    and dirs: "dirs = checkpoint_dirs_of items"
    and i: "i < length dirs"
    and m: "matching_rows df (CHECKPOINT_DIR_NAME env) (dirs ! i) \<noteq> []"
  shows "\<exists>r recs. fst (from_path env path sfs) = Inr r
           \<and> metrics_dataframe r = Some df
           \<and> best_checkpoints r = Some recs
           \<and> length recs = length dirs
           \<and> recs ! i = (Checkpoint (os_path_join fs_path (dirs ! i)) fs,
                         row_to_dict env df (last (matching_rows df (CHECKPOINT_DIR_NAME env) (dirs ! i))))"
proof -
  have ne: "checkpoint_dirs_of items \<noteq> []" using i dirs by auto
  have col: "checkpoint_dirs_of items \<noteq> [] \<longrightarrow> CHECKPOINT_DIR_NAME env \<in> set (columns df)"
    using matching_rows_column[OF m] by simp
  from from_path_records[OF res root log listing err col] ne dirs
  obtain r where r: "fst (from_path env path sfs) = Inr r" "metrics_dataframe r = Some df"
    "best_checkpoints r =
       Some (map (\<lambda>d. (Checkpoint (os_path_join fs_path d) fs,
                       correlated_snapshot env df d)) dirs)"
    by auto
  show ?thesis
    using r i m
    by (intro exI[of _ r] exI[of _ "map (\<lambda>d. (Checkpoint (os_path_join fs_path d) fs,
                       correlated_snapshot env df d)) dirs"])
       (simp add: correlated_snapshot_def)
qed

section \<open>The worked trial, evaluated\<close>

lemma example_paths:
  "os_path_join ''/trial'' ''result.json'' = ''/trial/result.json''"
  "os_path_join ''/trial'' ''progress.csv'' = ''/trial/progress.csv''"
  "os_path_join ''/trial'' ''error.pkl'' = ''/trial/error.pkl''"
  "os_path_join ''/trial'' ''checkpoint_000002'' = ''/trial/checkpoint_000002''"
  "os_path_join ''/trial'' ''checkpoint_000003'' = ''/trial/checkpoint_000003''"
  "os_path_join ''/trial'' ''checkpoint_000004'' = ''/trial/checkpoint_000004''"
  by (simp_all add: os_path_join_def startswith_def endswith_def)

lemma example_lines: "filter (\<lambda>line. line \<noteq> []) (split_newline (''r'' @ [CHR 0x0A] @ ''s'')) = [''r'', ''s'']"
  by simp

lemma example_log:
  "fst (restore_metrics_df example_env example_fs ''/trial'') = Inr example_df"
  "fst (restore_metrics_df example_env bare_fs ''/trial'') = Inr example_df"
  "fst (restore_metrics_df example_env csv_fs ''/trial'') = Inr example_df"
  by (simp_all add: fst_restore_metrics_df example_env_def example_fs_def bare_fs_def csv_fs_def
        example_paths example_lines[simplified])

lemma keyless_log:
  "fst (restore_metrics_df keyless_env example_fs ''/trial'')
     = Inr \<lparr> columns = [''metric_a''], rows = [[PyNum 1], [PyNum 2]] \<rparr>"
  by (simp add: fst_restore_metrics_df keyless_env_def example_env_def example_fs_def
        example_paths example_lines[simplified])

lemma example_error:
  "fst (restore_error example_env example_fs ''/trial'') = Inr (Some ''RuntimeError'')"
  "fst (restore_error example_env bare_fs ''/trial'') = Inr None"
  "fst (restore_error example_env csv_fs ''/trial'') = Inr None"
  "fst (restore_error keyless_env example_fs ''/trial'') = Inr (Some ''RuntimeError'')"
  by (simp_all add: fst_restore_error example_env_def keyless_env_def example_fs_def bare_fs_def
        csv_fs_def example_paths)

lemma example_dirs:
  "checkpoint_dirs_of [(''result.json'', File), (''checkpoint_000003'', Directory),
                       (''checkpoint_000002'', Directory), (''error.pkl'', File),
                       (''checkpoint_000004'', Directory)]
     = [''checkpoint_000002'', ''checkpoint_000003'', ''checkpoint_000004'']"
  "checkpoint_dirs_of [(''result.json'', File)] = []"
  by (simp_all add: checkpoint_dirs_of_def startswith_def)

lemma example_matching:
  "matching_rows example_df ''checkpoint_dir_name'' ''checkpoint_000003''
     = [[PyNum 30, PyNum (-30), PyStr ''checkpoint_000003''],
        [PyNum 3, PyNum (-3), PyStr ''checkpoint_000003'']]"
  by (simp add: matching_rows_def example_df_def row_cell_def dict_get_def)


lemma example_snapshot:
  "row_to_dict example_env example_df [PyNum 3, PyNum (-3), PyStr ''checkpoint_000003'']
     = [(''metric_a'', PyNum 3), (''metric_b'', PyNum (-3)),
        (''checkpoint_dir_name'', PyStr ''checkpoint_000003'')]"
  by (simp add: row_to_dict_def example_df_def example_env_def)

lemma example_resolution:
  "get_fs_and_path example_env p (Some f) = Inr (f, p)"
  "get_fs_and_path keyless_env p (Some f) = Inr (f, p)"
  by (simp_all add: example_env_def keyless_env_def)

lemma example_listing:
  "get_file_info example_fs ''/trial'' =
     Inr [(''result.json'', File), (''checkpoint_000003'', Directory),
          (''checkpoint_000002'', Directory), (''error.pkl'', File),
          (''checkpoint_000004'', Directory)]"
  "get_file_info bare_fs ''/trial'' = Inr [(''result.json'', File)]"
  "fs_exists example_fs ''/trial''"
  "fs_exists bare_fs ''/trial''"
  by (simp_all add: example_fs_def bare_fs_def)

lemma example_key:
  "CHECKPOINT_DIR_NAME example_env = ''checkpoint_dir_name''"
  "CHECKPOINT_DIR_NAME keyless_env = ''checkpoint_dir_name''"
  by (simp_all add: example_env_def keyless_env_def)

lemma example_fixed_width:
  "\<forall>d\<in>set [''checkpoint_000002'', ''checkpoint_000003'', ''checkpoint_000004''].
     \<exists>ds. d = ''checkpoint_'' @ ds \<and> length ds = (6::nat) \<and> (\<forall>c\<in>set ds. is_digit c)"
proof -
  have "\<exists>ds. ''checkpoint_000002'' = ''checkpoint_'' @ ds \<and> length ds = 6 \<and> (\<forall>c\<in>set ds. is_digit c)"
    by (rule exI[of _ "''000002''"]) (simp add: is_digit_def)
  moreover
  have "\<exists>ds. ''checkpoint_000003'' = ''checkpoint_'' @ ds \<and> length ds = 6 \<and> (\<forall>c\<in>set ds. is_digit c)"
    by (rule exI[of _ "''000003''"]) (simp add: is_digit_def)
  moreover
  have "\<exists>ds. ''checkpoint_000004'' = ''checkpoint_'' @ ds \<and> length ds = 6 \<and> (\<forall>c\<in>set ds. is_digit c)"
    by (rule exI[of _ "''000004''"]) (simp add: is_digit_def)
  ultimately show ?thesis by simp
qed

theorem from_path_checkpoint_count_witness:
  "\<exists>r recs. fst (from_path example_env ''/trial'' (Some example_fs)) = Inr r
     \<and> best_checkpoints r = Some recs
     \<and> length recs = 3
     \<and> map fst recs = [Checkpoint ''/trial/checkpoint_000002'' example_fs,
                        Checkpoint ''/trial/checkpoint_000003'' example_fs,
                        Checkpoint ''/trial/checkpoint_000004'' example_fs]
     \<and> sorted (map checkpoint_index
                [''checkpoint_000002'', ''checkpoint_000003'', ''checkpoint_000004''])
     \<and> checkpoint r = Some (fst (last recs))"
proof -
  have col: "[''checkpoint_000002'', ''checkpoint_000003'', ''checkpoint_000004''] \<noteq> []
               \<longrightarrow> CHECKPOINT_DIR_NAME example_env \<in> set (columns example_df)"
    by (simp add: example_key example_df_def)
  from from_path_checkpoint_count
         [OF example_resolution(1) example_listing(3) example_log(1) example_listing(1)
             example_error(1) example_dirs(1)[symmetric] col, of 6]
  show ?thesis
    using example_fixed_width
    by (auto simp add: example_paths is_digit_def)
qed

text \<open>
  With no checkpoint directory the restored result has no record sequence: the field is
  \<^verbatim>\<open>None\<close>, not an empty list, so it has no length.
\<close>

theorem from_path_no_checkpoints_counterexample:
  "fst (from_path example_env ''/trial'' (Some bare_fs)) =
     Inr \<lparr> metrics = Some [(''metric_a'', PyNum 4), (''metric_b'', PyNum (-4)),
                           (''checkpoint_dir_name'', PyStr ''checkpoint_000004'')],
           checkpoint = None,
           error = None,
           metrics_dataframe = Some example_df,
           best_checkpoints = None,
           local_path = Some ''/trial'',
           remote_path = Some ''/trial'',
           storage_filesystem = Some bare_fs \<rparr>"
  by (simp add: fst_from_path example_resolution example_listing example_log example_error
        example_dirs fst_restore_checkpoints)
     (simp add: example_df_def df_empty_def row_to_dict_def bare_fs_def example_env_def)

theorem from_path_last_matching_witness:
  "\<exists>r recs. fst (from_path example_env ''/trial'' (Some example_fs)) = Inr r
     \<and> metrics_dataframe r = Some example_df
     \<and> best_checkpoints r = Some recs
     \<and> length recs = 3
     \<and> recs ! 1 = (Checkpoint ''/trial/checkpoint_000003'' example_fs,
                   [(''metric_a'', PyNum 3), (''metric_b'', PyNum (-3)),
                    (''checkpoint_dir_name'', PyStr ''checkpoint_000003'')])"
proof -
  have i: "(1::nat) < length [''checkpoint_000002'', ''checkpoint_000003'', ''checkpoint_000004'']"
    by simp
  have m: "matching_rows example_df (CHECKPOINT_DIR_NAME example_env)
             ([''checkpoint_000002'', ''checkpoint_000003'', ''checkpoint_000004''] ! 1) \<noteq> []"
    by (simp add: example_key example_matching)
  from from_path_last_matching
         [OF example_resolution(1) example_listing(3) example_log(1) example_listing(1)
             example_error(1) example_dirs(1)[symmetric] i m]
  show ?thesis
    by (simp add: example_key example_matching example_snapshot example_paths numeral_3_eq_3)
qed

section \<open>A log without the correlation key\<close>

lemma from_path_KeyError:
  assumes res: "get_fs_and_path env path sfs = Inr (fs, fs_path)"
    and root: "fs_exists fs fs_path"
    and log: "fst (restore_metrics_df env fs fs_path) = Inr df"
    and listing: "get_file_info fs fs_path = Inr items"
    and dirs: "checkpoint_dirs_of items \<noteq> []"
    and col: "CHECKPOINT_DIR_NAME env \<notin> set (columns df)"
  shows "fst (from_path env path sfs) = Inl (KeyError (CHECKPOINT_DIR_NAME env))"
  using assms
  by (simp add: fst_from_path fst_restore_checkpoints fst_checkpoint_metrics_KeyError)

text \<open>
  C5 (the code departs from it).  A trial whose log never carries the correlation
  key and which has checkpoint directories is not restored: reading the column raises
  \<^verbatim>\<open>KeyError\<close> before any record is built.
\<close>

theorem from_path_keyless_log_KeyError:
  "fst (from_path keyless_env ''/trial'' (Some example_fs)) = Inl (KeyError ''checkpoint_dir_name'')"
proof -
  have "CHECKPOINT_DIR_NAME keyless_env
          \<notin> set (columns \<lparr> columns = [''metric_a''], rows = [[PyNum 1], [PyNum 2]] \<rparr>)"
    by (simp add: example_key)
  from from_path_KeyError[OF example_resolution(2) example_listing(3) keyless_log example_listing(1) _ this]
  show ?thesis by (simp add: example_dirs example_key)
qed

section \<open>Which metrics log is read\<close>

lemma fst_checkpoint_metrics_Inl:
  assumes "fst (checkpoint_metrics env df dirs) = Inl e"
  shows "e = KeyError (CHECKPOINT_DIR_NAME env)"
proof (cases "CHECKPOINT_DIR_NAME env \<in> set (columns df)")
  case True
  then show ?thesis using assms by (simp add: fst_checkpoint_metrics)
next
  case False
  show ?thesis
  proof (cases "dirs = []")
    case True
    then show ?thesis using assms by (simp add: fst_io_simps)
  next
    case ne: False
    show ?thesis using assms fst_checkpoint_metrics_KeyError[OF False ne] by simp
  qed
qed

lemma fst_restore_checkpoints_Inl:
  assumes "fst (restore_checkpoints env fs fs_path df dirs) = Inl e"
  shows "e = KeyError (CHECKPOINT_DIR_NAME env)"
  using assms fst_checkpoint_metrics_Inl[of env df dirs]
  by (auto simp: fst_restore_checkpoints split: if_splits sum.splits)

lemma fst_restore_error_Inl:
  assumes "fst (restore_error env fs fs_path) = Inl e"
  shows "\<exists>x. e = External x"
  using assms by (auto simp: fst_restore_error split: if_splits sum.splits)

lemma filter_log_opened_restore_checkpoints:
  "filter (log_opened pj pc) (snd (restore_checkpoints env fs fs_path df dirs)) = []"
  by (auto simp: filter_empty_conv log_opened_def dest: snd_restore_checkpoints)

lemma log_opened_simps:
  "log_opened pj pc (Exists p) = False"
  "log_opened pj pc (GetFileInfo p) = False"
  "log_opened pj pc (LogWarning w) = False"
  "log_opened pj pc (OpenInputStream p) = (p = pj \<or> p = pc)"
  by (auto simp: log_opened_def)

lemma filter_log_opened_restore_error:
  assumes "os_path_join fs_path (EXPR_ERROR_PICKLE_FILE env) \<notin> {pj, pc}"
  shows "filter (log_opened pj pc) (snd (restore_error env fs fs_path)) = []"
  using assms by (simp add: snd_restore_error log_opened_simps)

lemma filter_log_opened_restore_metrics_df:
  assumes "pj = os_path_join fs_path (EXPR_RESULT_FILE env)"
    and "pc = os_path_join fs_path (EXPR_PROGRESS_FILE env)"
  shows "filter (log_opened pj pc) (snd (restore_metrics_df env fs fs_path)) =
           (if fs_exists fs pj then [OpenInputStream pj]
            else if fs_exists fs pc then [OpenInputStream pc]
            else [])"
  using assms by (simp add: snd_restore_metrics_df log_opened_simps)

text \<open>
  C6.  For an existing trial root, and with the error artifact's path different from the
  paths of the two logs, the only metrics log the call opens is the primary one when it
  exists, else the fallback one when that exists, else none; and the call raises the
  "neither log exists" \<^verbatim>\<open>RuntimeError\<close> exactly when neither file exists.
\<close>

theorem from_path_one_log:
  assumes res: "get_fs_and_path env path sfs = Inr (fs, fs_path)"
    and root: "fs_exists fs fs_path"
    and pj: "pj = os_path_join fs_path (EXPR_RESULT_FILE env)"
    and pc: "pc = os_path_join fs_path (EXPR_PROGRESS_FILE env)"
    and pe: "os_path_join fs_path (EXPR_ERROR_PICKLE_FILE env) \<notin> {pj, pc}"
  shows "filter (log_opened pj pc) (snd (from_path env path sfs)) =
           (if fs_exists fs pj then [OpenInputStream pj]
            else if fs_exists fs pc then [OpenInputStream pc]
            else [])
         \<and> (fst (from_path env path sfs) =
               Inl (RuntimeError (Neither_log_exists (EXPR_RESULT_FILE env) (EXPR_PROGRESS_FILE env))))
            = (\<not> fs_exists fs pj \<and> \<not> fs_exists fs pc)"
proof
  show "filter (log_opened pj pc) (snd (from_path env path sfs)) =
           (if fs_exists fs pj then [OpenInputStream pj]
            else if fs_exists fs pc then [OpenInputStream pc]
            else [])"
    using root
    by (simp add: snd_from_path[OF res] filter_log_opened_restore_metrics_df[OF pj pc]
          filter_log_opened_restore_error[OF pe] filter_log_opened_restore_checkpoints
          log_opened_simps split: sum.splits)
next
  show "(fst (from_path env path sfs) =
               Inl (RuntimeError (Neither_log_exists (EXPR_RESULT_FILE env) (EXPR_PROGRESS_FILE env))))
            = (\<not> fs_exists fs pj \<and> \<not> fs_exists fs pc)"
  proof
    assume neither: "\<not> fs_exists fs pj \<and> \<not> fs_exists fs pc"
    then show "fst (from_path env path sfs) =
               Inl (RuntimeError (Neither_log_exists (EXPR_RESULT_FILE env) (EXPR_PROGRESS_FILE env)))"
      using res root by (simp add: fst_from_path fst_restore_metrics_df pj pc)
  next
    assume raised: "fst (from_path env path sfs) =
               Inl (RuntimeError (Neither_log_exists (EXPR_RESULT_FILE env) (EXPR_PROGRESS_FILE env)))"
    show "\<not> fs_exists fs pj \<and> \<not> fs_exists fs pc"
    proof (rule ccontr)
      assume "\<not> (\<not> fs_exists fs pj \<and> \<not> fs_exists fs pc)"
      then have log: "\<And>m. fst (restore_metrics_df env fs fs_path) \<noteq> Inl (RuntimeError m)"
        by (auto simp: fst_restore_metrics_df pj pc split: sum.splits)
      from raised res root show False
        using log fst_restore_checkpoints_Inl fst_restore_error_Inl
        by (fastforce simp: fst_from_path split: sum.splits prod.splits)
    qed
  qed
qed


lemma example_constants:
  "EXPR_RESULT_FILE example_env = ''result.json''"
  "EXPR_PROGRESS_FILE example_env = ''progress.csv''"
  "EXPR_ERROR_PICKLE_FILE example_env = ''error.pkl''"
  by (simp_all add: example_env_def)

theorem from_path_one_log_witness:
  "filter (log_opened ''/trial/result.json'' ''/trial/progress.csv'')
          (snd (from_path example_env ''/trial'' (Some csv_fs)))
     = [OpenInputStream ''/trial/progress.csv'']
   \<and> fst (from_path example_env ''/trial'' (Some csv_fs))
       \<noteq> Inl (RuntimeError (Neither_log_exists ''result.json'' ''progress.csv''))"
proof -
  have root: "fs_exists csv_fs ''/trial''" by (simp add: csv_fs_def)
  have pj: "''/trial/result.json'' = os_path_join ''/trial'' (EXPR_RESULT_FILE example_env)"
    and pc: "''/trial/progress.csv'' = os_path_join ''/trial'' (EXPR_PROGRESS_FILE example_env)"
    and pe: "os_path_join ''/trial'' (EXPR_ERROR_PICKLE_FILE example_env)
               \<notin> {''/trial/result.json'', ''/trial/progress.csv''}"
    by (simp_all add: example_constants example_paths)
  from from_path_one_log[OF example_resolution(1) root pj pc pe]
  show ?thesis by (simp add: example_constants csv_fs_def)
qed

section \<open>All or nothing\<close>

lemma restore_metrics_df_failed_read:
  assumes "OpenInputStream p \<in> set (snd (restore_metrics_df env fs fs_path))"
    and "open_input_stream fs p = Inl e"
  shows "fst (restore_metrics_df env fs fs_path) = Inl (External e)"
proof -
  let ?pj = "os_path_join fs_path (EXPR_RESULT_FILE env)"
  let ?pc = "os_path_join fs_path (EXPR_PROGRESS_FILE env)"
  from assms(1)
  have "(fs_exists fs ?pj \<and> p = ?pj) \<or> (\<not> fs_exists fs ?pj \<and> fs_exists fs ?pc \<and> p = ?pc)"
    by (auto simp: snd_restore_metrics_df split: if_splits)
  then show ?thesis using assms(2) by (auto simp: fst_restore_metrics_df)
qed

lemma restore_error_failed_read:
  assumes "OpenInputStream p \<in> set (snd (restore_error env fs fs_path))"
    and "open_input_stream fs p = Inl e"
  shows "fst (restore_error env fs fs_path) = Inl (External e)"
proof -
  from assms(1)
  have "fs_exists fs (os_path_join fs_path (EXPR_ERROR_PICKLE_FILE env))
        \<and> p = os_path_join fs_path (EXPR_ERROR_PICKLE_FILE env)"
    by (auto simp: snd_restore_error split: if_splits)
  then show ?thesis using assms(2) by (simp add: fst_restore_error)
qed

lemma restore_checkpoints_no_storage:
  "OpenInputStream p \<notin> set (snd (restore_checkpoints env fs fs_path df dirs))"
  "GetFileInfo p \<notin> set (snd (restore_checkpoints env fs fs_path df dirs))"
  using snd_restore_checkpoints by fastforce+

lemma OpenInputStream_in_trace:
  assumes res: "get_fs_and_path env path sfs = Inr (fs, fs_path)"
    and opened: "OpenInputStream p \<in> set (snd (from_path env path sfs))"
    and failed: "open_input_stream fs p = Inl e"
  shows "fst (from_path env path sfs) = Inl (External e)"
proof -
  have root: "fs_exists fs fs_path"
    using opened by (auto simp: snd_from_path[OF res] split: if_splits)
  show ?thesis
  proof (cases "OpenInputStream p \<in> set (snd (restore_metrics_df env fs fs_path))")
    case True
    from restore_metrics_df_failed_read[OF True failed]
    show ?thesis using res root by (simp add: fst_from_path)
  next
    case False
    show ?thesis
    proof (cases "fst (restore_metrics_df env fs fs_path)")
      case (Inl x)
      then show ?thesis using opened root False by (simp add: snd_from_path[OF res])
    next
      case df: (Inr df)
      show ?thesis
      proof (cases "get_file_info fs fs_path")
        case (Inl x)
        then show ?thesis using opened root False df by (simp add: snd_from_path[OF res])
      next
        case items: (Inr items)
        show ?thesis
        proof (cases "fst (restore_checkpoints env fs fs_path df (checkpoint_dirs_of items))")
          case (Inl x)
          then show ?thesis
            using opened root False df items
            by (simp add: snd_from_path[OF res] restore_checkpoints_no_storage)
        next
          case bl: (Inr bl)
          have "OpenInputStream p \<in> set (snd (restore_error env fs fs_path))"
            using opened root False df items bl
            by (simp add: snd_from_path[OF res] restore_checkpoints_no_storage)
          from restore_error_failed_read[OF this failed]
          show ?thesis
            using res root df items bl by (simp add: fst_from_path split: prod.splits)
        qed
      qed
    qed
  qed
qed

lemma GetFileInfo_in_trace:
  assumes res: "get_fs_and_path env path sfs = Inr (fs, fs_path)"
    and listed: "GetFileInfo p \<in> set (snd (from_path env path sfs))"
    and failed: "get_file_info fs p = Inl e"
  shows "fst (from_path env path sfs) = Inl (External e)"
proof -
  have root: "fs_exists fs fs_path"
    using listed by (auto simp: snd_from_path[OF res] split: if_splits)
  have a: "GetFileInfo p \<notin> set (snd (restore_metrics_df env fs fs_path))"
    and b: "GetFileInfo p \<notin> set (snd (restore_error env fs fs_path))"
    by (simp_all add: snd_restore_metrics_df snd_restore_error)
  show ?thesis
  proof (cases "fst (restore_metrics_df env fs fs_path)")
    case (Inl x)
    then show ?thesis using listed root a by (simp add: snd_from_path[OF res])
  next
    case df: (Inr df)
    have "p = fs_path"
      using listed root a b df
      by (auto simp: snd_from_path[OF res] restore_checkpoints_no_storage split: sum.splits)
    then show ?thesis using res root df failed by (simp add: fst_from_path)
  qed
qed

lemma from_path_Inr:
  assumes res: "get_fs_and_path env path sfs = Inr (fs, fs_path)"
    and ret: "fst (from_path env path sfs) = Inr r"
  shows "fs_exists fs fs_path
         \<and> (\<exists>df items. fst (restore_metrics_df env fs fs_path) = Inr df
               \<and> get_file_info fs fs_path = Inr items
               \<and> fst (restore_checkpoints env fs fs_path df (checkpoint_dirs_of items))
                   = Inr (best_checkpoints r, checkpoint r)
               \<and> fst (restore_error env fs fs_path) = Inr (error r)
               \<and> metrics_dataframe r = Some df
               \<and> metrics r = Some (if df_empty df then [] else row_to_dict env df (last (rows df)))
               \<and> local_path r = (if is_local fs then Some path else None)
               \<and> remote_path r = Some fs_path
               \<and> storage_filesystem r = Some fs)"
proof -
  have root: "fs_exists fs fs_path"
    using ret res by (cases "fs_exists fs fs_path") (simp_all add: fst_from_path)
  obtain df where df: "fst (restore_metrics_df env fs fs_path) = Inr df"
    using ret res root by (cases "fst (restore_metrics_df env fs fs_path)") (simp_all add: fst_from_path)
  obtain items where items: "get_file_info fs fs_path = Inr items"
    using ret res root df by (cases "get_file_info fs fs_path") (simp_all add: fst_from_path)
  obtain best latest where
    bl: "fst (restore_checkpoints env fs fs_path df (checkpoint_dirs_of items)) = Inr (best, latest)"
    using ret res root df items
    by (cases "fst (restore_checkpoints env fs fs_path df (checkpoint_dirs_of items))")
       (simp_all add: fst_from_path split: prod.splits)
  obtain err where err: "fst (restore_error env fs fs_path) = Inr err"
    using ret res root df items bl
    by (cases "fst (restore_error env fs fs_path)") (simp_all add: fst_from_path)
  have r: "r = \<lparr> metrics = Some (if df_empty df then [] else row_to_dict env df (last (rows df))),
                  checkpoint = latest, error = err, metrics_dataframe = Some df,
                  best_checkpoints = best,
                  local_path = (if is_local fs then Some path else None),
                  remote_path = Some fs_path, storage_filesystem = Some fs \<rparr>"
    using ret res root df items bl err by (simp add: fst_from_path)
  show ?thesis
    using root df items bl err by (simp add: r)
qed

text \<open>
  C9.  The call either raises or returns a result, never both.  A path that does not
  resolve raises; a trial root that does not exist raises the "trial folder doesn't exist"
  \<^verbatim>\<open>RuntimeError\<close>; a root with neither log raises the "neither log exists"
  \<^verbatim>\<open>RuntimeError\<close>; a read or a listing that the call performs and that fails makes the
  call raise that failure.  When a result is returned, every step has succeeded and every
  field of the result is the output of its step.
\<close>

theorem from_path_all_or_nothing:
  "(\<forall>e. get_fs_and_path env path sfs = Inl e \<longrightarrow> fst (from_path env path sfs) = Inl (External e))
   \<and> (\<forall>fs fs_path. get_fs_and_path env path sfs = Inr (fs, fs_path) \<longrightarrow>
        (\<not> fs_exists fs fs_path \<longrightarrow>
           fst (from_path env path sfs) = Inl (RuntimeError (Trial_folder_doesnt_exist fs_path)))
      \<and> (fs_exists fs fs_path
           \<and> \<not> fs_exists fs (os_path_join fs_path (EXPR_RESULT_FILE env))
           \<and> \<not> fs_exists fs (os_path_join fs_path (EXPR_PROGRESS_FILE env)) \<longrightarrow>
           fst (from_path env path sfs) =
             Inl (RuntimeError (Neither_log_exists (EXPR_RESULT_FILE env) (EXPR_PROGRESS_FILE env))))
      \<and> (\<forall>p e. OpenInputStream p \<in> set (snd (from_path env path sfs))
                 \<and> open_input_stream fs p = Inl e \<longrightarrow>
                 fst (from_path env path sfs) = Inl (External e))
      \<and> (\<forall>p e. GetFileInfo p \<in> set (snd (from_path env path sfs))
                 \<and> get_file_info fs p = Inl e \<longrightarrow>
                 fst (from_path env path sfs) = Inl (External e))
      \<and> (\<forall>r. fst (from_path env path sfs) = Inr r \<longrightarrow>
             fs_exists fs fs_path
             \<and> (\<exists>df items. fst (restore_metrics_df env fs fs_path) = Inr df
                   \<and> get_file_info fs fs_path = Inr items
                   \<and> fst (restore_checkpoints env fs fs_path df (checkpoint_dirs_of items))
                       = Inr (best_checkpoints r, checkpoint r)
                   \<and> fst (restore_error env fs fs_path) = Inr (error r)
                   \<and> metrics_dataframe r = Some df
                   \<and> metrics r = Some (if df_empty df then [] else row_to_dict env df (last (rows df)))
                   \<and> local_path r = (if is_local fs then Some path else None)
                   \<and> remote_path r = Some fs_path
                   \<and> storage_filesystem r = Some fs)))"
proof (intro conjI allI impI)
  fix e assume "get_fs_and_path env path sfs = Inl e"
  then show "fst (from_path env path sfs) = Inl (External e)" by (simp add: fst_from_path)
next
  fix fs fs_path
  assume "get_fs_and_path env path sfs = Inr (fs, fs_path)" "\<not> fs_exists fs fs_path"
  then show "fst (from_path env path sfs) = Inl (RuntimeError (Trial_folder_doesnt_exist fs_path))"
    by (simp add: fst_from_path)
next
  fix fs fs_path
  assume "get_fs_and_path env path sfs = Inr (fs, fs_path)"
    "fs_exists fs fs_path
           \<and> \<not> fs_exists fs (os_path_join fs_path (EXPR_RESULT_FILE env))
           \<and> \<not> fs_exists fs (os_path_join fs_path (EXPR_PROGRESS_FILE env))"
  then show "fst (from_path env path sfs) =
             Inl (RuntimeError (Neither_log_exists (EXPR_RESULT_FILE env) (EXPR_PROGRESS_FILE env)))"
    by (simp add: fst_from_path fst_restore_metrics_df)
next
  fix fs fs_path p e
  assume "get_fs_and_path env path sfs = Inr (fs, fs_path)"
    "OpenInputStream p \<in> set (snd (from_path env path sfs)) \<and> open_input_stream fs p = Inl e"
  then show "fst (from_path env path sfs) = Inl (External e)"
    using OpenInputStream_in_trace by blast
next
  fix fs fs_path p e
  assume "get_fs_and_path env path sfs = Inr (fs, fs_path)"
    "GetFileInfo p \<in> set (snd (from_path env path sfs)) \<and> get_file_info fs p = Inl e"
  then show "fst (from_path env path sfs) = Inl (External e)"
    using GetFileInfo_in_trace by blast
next
  fix fs fs_path r
  assume a: "get_fs_and_path env path sfs = Inr (fs, fs_path)" "fst (from_path env path sfs) = Inr r"
  from from_path_Inr[OF a] show "fs_exists fs fs_path" by simp
  from from_path_Inr[OF a]
  show "\<exists>df items. fst (restore_metrics_df env fs fs_path) = Inr df
                   \<and> get_file_info fs fs_path = Inr items
                   \<and> fst (restore_checkpoints env fs fs_path df (checkpoint_dirs_of items))
                       = Inr (best_checkpoints r, checkpoint r)
                   \<and> fst (restore_error env fs fs_path) = Inr (error r)
                   \<and> metrics_dataframe r = Some df
                   \<and> metrics r = Some (if df_empty df then [] else row_to_dict env df (last (rows df)))
                   \<and> local_path r = (if is_local fs then Some path else None)
                   \<and> remote_path r = Some fs_path
                   \<and> storage_filesystem r = Some fs"
    by simp
qed


theorem from_path_all_or_nothing_witness:
  "fst (from_path example_env ''/trial'' None) = Inl (External ''ArrowInvalid'')
   \<and> fst (from_path example_env ''/nowhere'' (Some example_fs))
       = Inl (RuntimeError (Trial_folder_doesnt_exist ''/nowhere''))
   \<and> fst (from_path example_env ''/trial'' (Some nolog_fs))
       = Inl (RuntimeError (Neither_log_exists ''result.json'' ''progress.csv''))
   \<and> fst (from_path example_env ''/trial'' (Some unreadable_fs)) = Inl (External ''OSError'')
   \<and> (\<exists>r. fst (from_path example_env ''/trial'' (Some example_fs)) = Inr r
            \<and> remote_path r = Some ''/trial'' \<and> storage_filesystem r = Some example_fs)"
proof (intro conjI)
  have "get_fs_and_path example_env ''/trial'' None = Inl ''ArrowInvalid''"
    by (simp add: example_env_def)
  with from_path_all_or_nothing[of example_env "''/trial''" None]
  show "fst (from_path example_env ''/trial'' None) = Inl (External ''ArrowInvalid'')"
    by blast
next
  have "\<not> fs_exists example_fs ''/nowhere''" by (simp add: example_fs_def)
  with from_path_all_or_nothing[of example_env "''/nowhere''" "Some example_fs"]
    example_resolution(1)[of "''/nowhere''" example_fs]
  show "fst (from_path example_env ''/nowhere'' (Some example_fs))
          = Inl (RuntimeError (Trial_folder_doesnt_exist ''/nowhere''))"
    by blast
next
  have "fs_exists nolog_fs ''/trial''
          \<and> \<not> fs_exists nolog_fs (os_path_join ''/trial'' (EXPR_RESULT_FILE example_env))
          \<and> \<not> fs_exists nolog_fs (os_path_join ''/trial'' (EXPR_PROGRESS_FILE example_env))"
    by (simp add: nolog_fs_def example_constants example_paths)
  with from_path_all_or_nothing[of example_env "''/trial''" "Some nolog_fs"]
    example_resolution(1)[of "''/trial''" nolog_fs]
  have "fst (from_path example_env ''/trial'' (Some nolog_fs))
          = Inl (RuntimeError (Neither_log_exists (EXPR_RESULT_FILE example_env)
                                                  (EXPR_PROGRESS_FILE example_env)))"
    by blast
  then show "fst (from_path example_env ''/trial'' (Some nolog_fs))
          = Inl (RuntimeError (Neither_log_exists ''result.json'' ''progress.csv''))"
    by (simp add: example_constants)
next
  have "OpenInputStream ''/trial/result.json''
          \<in> set (snd (from_path example_env ''/trial'' (Some unreadable_fs)))
        \<and> open_input_stream unreadable_fs ''/trial/result.json'' = Inl ''OSError''"
    by (simp add: snd_from_path[OF example_resolution(1)] snd_restore_metrics_df
          example_constants example_paths unreadable_fs_def)
  with from_path_all_or_nothing[of example_env "''/trial''" "Some unreadable_fs"]
    example_resolution(1)[of "''/trial''" unreadable_fs]
  show "fst (from_path example_env ''/trial'' (Some unreadable_fs)) = Inl (External ''OSError'')"
    by blast
next
  from from_path_records[OF example_resolution(1) example_listing(3) example_log(1)
         example_listing(1) example_error(1)]
  obtain r where r: "fst (from_path example_env ''/trial'' (Some example_fs)) = Inr r"
    by (auto simp: example_key example_df_def)
  with from_path_all_or_nothing[of example_env "''/trial''" "Some example_fs"]
    example_resolution(1)[of "''/trial''" example_fs]
  have "remote_path r = Some ''/trial'' \<and> storage_filesystem r = Some example_fs"
    by blast
  with r show "\<exists>r. fst (from_path example_env ''/trial'' (Some example_fs)) = Inr r
            \<and> remote_path r = Some ''/trial'' \<and> storage_filesystem r = Some example_fs"
    by blast
qed

end
